theory Spec2Isabelle
  imports Main "HOL-Library.Word" "HOL-Library.AList"
begin

unbundle bit_operations_syntax

section \<open>Python values and exceptions\<close>

text \<open>
  The server is written in Python.  A byte is an \<open>8 word\<close>, a \<open>bytes\<close> object a list
  of bytes, a \<open>str\<close> the list of its Unicode code points, an \<open>int\<close> an unbounded
  integer and a \<open>float\<close> the 64 bits of its IEEE-754 representation.  A \<open>dict\<close> is
  an association list in insertion order.  An exception is a value of \<open>py_error\<close>;
  a method that may raise returns \<open>py_error + 'a\<close>.

  Equality of dictionary keys and Python's \<open>==\<close> are modelled by equality of the
  modelled values; object identity is not modelled.
\<close>

type_synonym byte = "8 word"

datatype ConnectionState =
    NEGOTIATION | AUTHENTICATION | READY | STREAMING
  | TX_READY | TX_STREAMING | FAILED | DEFUNCT

datatype py_error =
    ValueError_InvalidTransition ConnectionState ConnectionState
  | ValueError_CannotEncode
  | ValueError_ByteRange
  | ValueError_EndOfData
  | ValueError_UnexpectedEnd
  | ValueError_UnknownMarker byte
  | StructError
  | TypeError_Unhashable
  | TypeError_NotIterable
  | TypeError_BadOperand
  | IndexError
  | KeyError
  | AttributeError
  | UnicodeEncodeError
  | UnicodeDecodeError
  | RuntimeError_AlreadyInTransaction
  | RuntimeError_NotInTransaction
  | IncompleteReadError
  | EngineError "nat list"

definition bindE :: "'e + 'a \<Rightarrow> ('a \<Rightarrow> 'e + 'b) \<Rightarrow> 'e + 'b" where
  "bindE m f = (case m of Inl e \<Rightarrow> Inl e | Inr x \<Rightarrow> f x)"

datatype pyval =
    PNone
  | PBool bool
  | PInt int
  | PFloat "64 word"
  | PStr "nat list"
  | PBytes "byte list"
  | PList "pyval list"
  | PTuple "pyval list"
  | PDict "(pyval \<times> pyval) list"
  | PStructure int "pyval list"

text \<open>
  \<open>PStructure tag fields\<close> is an instance of the dataclass \<open>Structure\<close> (packstream.py).
  A dataclass with \<open>eq=True\<close> that is not frozen has no hash, as lists and dicts have
  none; storing under such a key raises \<open>TypeError\<close>.  An assignment \<open>d[k] = v\<close>
  replaces the value of a key already present and appends a new key at the end.
\<close>

fun hashable :: "pyval \<Rightarrow> bool" where
  "hashable (PList xs) = False"
| "hashable (PDict kvs) = False"
| "hashable (PStructure t fs) = False"
| "hashable (PTuple xs) = list_all hashable xs"
| "hashable v = True"

definition dict_setitem ::
  "(pyval \<times> pyval) list \<Rightarrow> pyval \<Rightarrow> pyval \<Rightarrow> py_error + (pyval \<times> pyval) list" where
  "dict_setitem d k v =
     (if hashable k then Inr (AList.update k v d) else Inl TypeError_Unhashable)"

subsection \<open>The struct module: big-endian integers\<close>

text \<open>
  \<open>struct.pack('>b' | '>h' | '>i' | '>q', v)\<close> is \<open>pack_signed n v\<close> for \<open>n = 1, 2, 4, 8\<close>
  and \<open>struct.pack('>H' | '>I', v)\<close> is \<open>pack_unsigned n v\<close> for \<open>n = 2, 4\<close>; both raise
  \<open>struct.error\<close> when the value does not fit.
\<close>

fun be_bytes :: "nat \<Rightarrow> nat \<Rightarrow> byte list" where
  "be_bytes 0 v = []"
| "be_bytes (Suc n) v = be_bytes n (v div 256) @ [of_nat (v mod 256)]"

definition be_val :: "byte list \<Rightarrow> nat" where
  "be_val bs = foldl (\<lambda>a b. a * 256 + unat b) 0 bs"

definition pack_signed :: "nat \<Rightarrow> int \<Rightarrow> py_error + byte list" where
  "pack_signed n v =
     (if - (2 ^ (8 * n - 1)) \<le> v \<and> v < 2 ^ (8 * n - 1)
      then Inr (be_bytes n (nat (v mod 2 ^ (8 * n))))
      else Inl StructError)"

definition pack_unsigned :: "nat \<Rightarrow> int \<Rightarrow> py_error + byte list" where
  "pack_unsigned n v =
     (if 0 \<le> v \<and> v < 2 ^ (8 * n) then Inr (be_bytes n (nat v)) else Inl StructError)"

definition unpack_signed :: "nat \<Rightarrow> byte list \<Rightarrow> int" where
  "unpack_signed n bs =
     (let u = int (be_val bs) in if 2 ^ (8 * n - 1) \<le> u then u - 2 ^ (8 * n) else u)"

definition unpack_unsigned :: "byte list \<Rightarrow> nat" where
  "unpack_unsigned bs = be_val bs"

subsection \<open>The UTF-8 codec of \<open>str.encode\<close> and \<open>bytes.decode\<close>\<close>

text \<open>
  \<open>str.encode('utf-8')\<close> raises on a surrogate code point; \<open>bytes.decode('utf-8')\<close> is
  strict: it rejects overlong forms, surrogates, code points above \<open>0x10FFFF\<close>,
  stray continuation bytes and truncated sequences.
\<close>

fun utf8_encode_char :: "nat \<Rightarrow> py_error + byte list" where
  "utf8_encode_char c =
     (if c < 0x80 then Inr [of_nat c]
      else if c < 0x800 then Inr [of_nat (0xC0 + c div 64), of_nat (0x80 + c mod 64)]
      else if c < 0x10000 then
        (if 0xD800 \<le> c \<and> c \<le> 0xDFFF then Inl UnicodeEncodeError
         else Inr [of_nat (0xE0 + c div 4096), of_nat (0x80 + c div 64 mod 64),
                   of_nat (0x80 + c mod 64)])
      else if c < 0x110000 then
        Inr [of_nat (0xF0 + c div 262144), of_nat (0x80 + c div 4096 mod 64),
             of_nat (0x80 + c div 64 mod 64), of_nat (0x80 + c mod 64)]
      else Inl UnicodeEncodeError)"

fun utf8_encode :: "nat list \<Rightarrow> py_error + byte list" where
  "utf8_encode [] = Inr []"
| "utf8_encode (c # cs) =
     bindE (utf8_encode_char c) (\<lambda>b. bindE (utf8_encode cs) (\<lambda>bs. Inr (b @ bs)))"

definition is_cont :: "byte \<Rightarrow> bool" where
  "is_cont b \<longleftrightarrow> 0x80 \<le> b \<and> b \<le> 0xBF"

definition cont_bits :: "byte \<Rightarrow> nat" where
  "cont_bits b = unat (b AND 0x3F)"

fun utf8_decode :: "byte list \<Rightarrow> py_error + nat list" where
  "utf8_decode [] = Inr []"
| "utf8_decode (b0 # bs) =
     (if b0 < 0x80 then bindE (utf8_decode bs) (\<lambda>cs. Inr (unat b0 # cs))
      else if 0xC2 \<le> b0 \<and> b0 \<le> 0xDF then
        (case bs of
           b1 # bs1 \<Rightarrow>
             (if is_cont b1
              then bindE (utf8_decode bs1)
                     (\<lambda>cs. Inr ((unat (b0 AND 0x1F) * 64 + cont_bits b1) # cs))
              else Inl UnicodeDecodeError)
         | _ \<Rightarrow> Inl UnicodeDecodeError)
      else if 0xE0 \<le> b0 \<and> b0 \<le> 0xEF then
        (case bs of
           b1 # b2 # bs2 \<Rightarrow>
             (let c = unat (b0 AND 0x0F) * 4096 + cont_bits b1 * 64 + cont_bits b2
              in if is_cont b1 \<and> is_cont b2 \<and> 0x800 \<le> c \<and> \<not> (0xD800 \<le> c \<and> c \<le> 0xDFFF)
                 then bindE (utf8_decode bs2) (\<lambda>cs. Inr (c # cs))
                 else Inl UnicodeDecodeError)
         | _ \<Rightarrow> Inl UnicodeDecodeError)
      else if 0xF0 \<le> b0 \<and> b0 \<le> 0xF4 then
        (case bs of
           b1 # b2 # b3 # bs3 \<Rightarrow>
             (let c = unat (b0 AND 0x07) * 262144 + cont_bits b1 * 4096
                      + cont_bits b2 * 64 + cont_bits b3
              in if is_cont b1 \<and> is_cont b2 \<and> is_cont b3 \<and> 0x10000 \<le> c \<and> c \<le> 0x10FFFF
                 then bindE (utf8_decode bs3) (\<lambda>cs. Inr (c # cs))
                 else Inl UnicodeDecodeError)
         | _ \<Rightarrow> Inl UnicodeDecodeError)
      else Inl UnicodeDecodeError)"

section \<open>PackStream (packstream.py)\<close>

subsection \<open>Marker bytes\<close>

definition TINY_STRING :: byte where "TINY_STRING = 0x80"
definition TINY_LIST :: byte where "TINY_LIST = 0x90"
definition TINY_MAP :: byte where "TINY_MAP = 0xA0"
definition TINY_STRUCT :: byte where "TINY_STRUCT = 0xB0"
definition NULL :: byte where "NULL = 0xC0"
definition FLOAT_64 :: byte where "FLOAT_64 = 0xC1"
definition FALSE :: byte where "FALSE = 0xC2"
definition TRUE :: byte where "TRUE = 0xC3"
definition INT_8 :: byte where "INT_8 = 0xC8"
definition INT_16 :: byte where "INT_16 = 0xC9"
definition INT_32 :: byte where "INT_32 = 0xCA"
definition INT_64 :: byte where "INT_64 = 0xCB"
definition BYTES_8 :: byte where "BYTES_8 = 0xCC"
definition BYTES_16 :: byte where "BYTES_16 = 0xCD"
definition BYTES_32 :: byte where "BYTES_32 = 0xCE"
definition STRING_8 :: byte where "STRING_8 = 0xD0"
definition STRING_16 :: byte where "STRING_16 = 0xD1"
definition STRING_32 :: byte where "STRING_32 = 0xD2"
definition LIST_8 :: byte where "LIST_8 = 0xD4"
definition LIST_16 :: byte where "LIST_16 = 0xD5"
definition LIST_32 :: byte where "LIST_32 = 0xD6"
definition MAP_8 :: byte where "MAP_8 = 0xD8"
definition MAP_16 :: byte where "MAP_16 = 0xD9"
definition MAP_32 :: byte where "MAP_32 = 0xDA"
definition STRUCT_8 :: byte where "STRUCT_8 = 0xDC"
definition STRUCT_16 :: byte where "STRUCT_16 = 0xDD"

subsection \<open>\<open>PackStreamEncoder\<close>\<close>

text \<open>
  Each \<open>_encode_*\<close> method appends to \<open>self._buffer\<close>; the model returns the bytes the
  method appends, or the exception it raises.  \<open>bytearray.append\<close> raises
  \<open>ValueError\<close> for an integer outside \<open>range(256)\<close>.  In \<open>_encode_map\<close> a key goes
  through the built-in \<open>str()\<close>, which returns a \<open>str\<close> as it is; what \<open>str()\<close> makes of
  any other value is the parameter \<open>strf\<close>.
\<close>

definition encode_int :: "int \<Rightarrow> py_error + byte list" where
  "encode_int v =
     (if -16 \<le> v \<and> v < 128 then Inr [word_of_int (v AND 0xFF)]
      else if -128 \<le> v \<and> v < 128 then
        bindE (pack_signed 1 v) (\<lambda>bs. Inr (INT_8 # bs))
      else if -32768 \<le> v \<and> v < 32768 then
        bindE (pack_signed 2 v) (\<lambda>bs. Inr (INT_16 # bs))
      else if -2147483648 \<le> v \<and> v < 2147483648 then
        bindE (pack_signed 4 v) (\<lambda>bs. Inr (INT_32 # bs))
      else
        bindE (pack_signed 8 v) (\<lambda>bs. Inr (INT_64 # bs)))"

definition encode_string :: "nat list \<Rightarrow> py_error + byte list" where
  "encode_string v =
     bindE (utf8_encode v) (\<lambda>encoded.
       let sz = length encoded in
       bindE (if sz < 16 then Inr [TINY_STRING OR of_nat sz]
              else if sz < 256 then Inr [STRING_8, of_nat sz]
              else if sz < 65536 then
                bindE (pack_unsigned 2 (int sz)) (\<lambda>h. Inr (STRING_16 # h))
              else bindE (pack_unsigned 4 (int sz)) (\<lambda>h. Inr (STRING_32 # h)))
         (\<lambda>header. Inr (header @ encoded)))"

definition encode_bytes :: "byte list \<Rightarrow> py_error + byte list" where
  "encode_bytes v =
     (let sz = length v in
      bindE (if sz < 256 then Inr [BYTES_8, of_nat sz]
             else if sz < 65536 then
               bindE (pack_unsigned 2 (int sz)) (\<lambda>h. Inr (BYTES_16 # h))
             else bindE (pack_unsigned 4 (int sz)) (\<lambda>h. Inr (BYTES_32 # h)))
        (\<lambda>header. Inr (header @ v)))"

definition list_header :: "nat \<Rightarrow> py_error + byte list" where
  "list_header sz =
     (if sz < 16 then Inr [TINY_LIST OR of_nat sz]
      else if sz < 256 then Inr [LIST_8, of_nat sz]
      else if sz < 65536 then bindE (pack_unsigned 2 (int sz)) (\<lambda>h. Inr (LIST_16 # h))
      else bindE (pack_unsigned 4 (int sz)) (\<lambda>h. Inr (LIST_32 # h)))"

definition map_header :: "nat \<Rightarrow> py_error + byte list" where
  "map_header sz =
     (if sz < 16 then Inr [TINY_MAP OR of_nat sz]
      else if sz < 256 then Inr [MAP_8, of_nat sz]
      else if sz < 65536 then bindE (pack_unsigned 2 (int sz)) (\<lambda>h. Inr (MAP_16 # h))
      else bindE (pack_unsigned 4 (int sz)) (\<lambda>h. Inr (MAP_32 # h)))"

definition structure_header :: "nat \<Rightarrow> int \<Rightarrow> py_error + byte list" where
  "structure_header sz tag =
     bindE (if sz < 16 then Inr [TINY_STRUCT OR of_nat sz]
            else if sz < 256 then Inr [STRUCT_8, of_nat sz]
            else bindE (pack_unsigned 2 (int sz)) (\<lambda>h. Inr (STRUCT_16 # h)))
       (\<lambda>header. if 0 \<le> tag \<and> tag < 256 then Inr (header @ [word_of_int tag])
                  else Inl ValueError_ByteRange)"

definition py_str :: "(pyval \<Rightarrow> nat list) \<Rightarrow> pyval \<Rightarrow> nat list" where
  "py_str strf v = (case v of PStr s \<Rightarrow> s | _ \<Rightarrow> strf v)"

fun encode_value :: "(pyval \<Rightarrow> nat list) \<Rightarrow> pyval \<Rightarrow> py_error + byte list"
  and encode_items :: "(pyval \<Rightarrow> nat list) \<Rightarrow> pyval list \<Rightarrow> py_error + byte list"
  and encode_pairs :: "(pyval \<Rightarrow> nat list) \<Rightarrow> (pyval \<times> pyval) list \<Rightarrow> py_error + byte list"
where
  "encode_value strf PNone = Inr [NULL]"
| "encode_value strf (PBool b) = Inr [if b then TRUE else FALSE]"
| "encode_value strf (PInt i) = encode_int i"
| "encode_value strf (PFloat f) = bindE (Inr (be_bytes 8 (unat f))) (\<lambda>bs. Inr (FLOAT_64 # bs))"
| "encode_value strf (PStr s) = encode_string s"
| "encode_value strf (PBytes b) = encode_bytes b"
| "encode_value strf (PList xs) =
     bindE (list_header (length xs)) (\<lambda>h. bindE (encode_items strf xs) (\<lambda>b. Inr (h @ b)))"
| "encode_value strf (PTuple xs) =
     bindE (list_header (length xs)) (\<lambda>h. bindE (encode_items strf xs) (\<lambda>b. Inr (h @ b)))"
| "encode_value strf (PDict kvs) =
     bindE (map_header (length kvs)) (\<lambda>h. bindE (encode_pairs strf kvs) (\<lambda>b. Inr (h @ b)))"
| "encode_value strf (PStructure tag fields) =
     bindE (structure_header (length fields) tag)
       (\<lambda>h. bindE (encode_items strf fields) (\<lambda>b. Inr (h @ b)))"
| "encode_items strf [] = Inr []"
| "encode_items strf (x # xs) =
     bindE (encode_value strf x) (\<lambda>a. bindE (encode_items strf xs) (\<lambda>b. Inr (a @ b)))"
| "encode_pairs strf [] = Inr []"
| "encode_pairs strf ((k, v) # kvs) =
     bindE (encode_string (py_str strf k)) (\<lambda>a.
     bindE (encode_value strf v) (\<lambda>b.
     bindE (encode_pairs strf kvs) (\<lambda>c. Inr (a @ b @ c))))"

definition encode :: "(pyval \<Rightarrow> nat list) \<Rightarrow> pyval \<Rightarrow> py_error + byte list" where
  "encode strf v = encode_value strf v"

subsection \<open>\<open>PackStreamDecoder\<close>\<close>

text \<open>
  The decoder holds \<open>self._data\<close> and the position \<open>self._pos\<close>; the model passes the
  bytes from \<open>self._pos\<close> on and returns the value read with the bytes left.
  \<open>_decode_value\<close> is one chain of tests on the marker.  \<open>decode_header\<close> is that chain,
  in the source's order, up to the point where a collection's elements are read: a
  branch that returns a scalar returns it, a branch of a list, map or structure
  returns the size it has read (and the tag).  \<open>decode_value\<close> then reads the elements
  as the comprehension of that branch does.
\<close>

definition read_byte :: "byte list \<Rightarrow> py_error + (byte \<times> byte list)" where
  "read_byte data = (case data of [] \<Rightarrow> Inl ValueError_UnexpectedEnd | b # rest \<Rightarrow> Inr (b, rest))"

definition read_bytes :: "nat \<Rightarrow> byte list \<Rightarrow> py_error + (byte list \<times> byte list)" where
  "read_bytes n data =
     (if n > length data then Inl ValueError_UnexpectedEnd else Inr (take n data, drop n data))"

datatype header = Scalar pyval | ListOf nat | MapOf nat | StructOf nat byte

definition decode_utf8 :: "nat \<Rightarrow> byte list \<Rightarrow> py_error + (header \<times> byte list)" where
  "decode_utf8 sz data =
     bindE (read_bytes sz data) (\<lambda>(bs, rest). bindE (utf8_decode bs) (\<lambda>s. Inr (Scalar (PStr s), rest)))"

definition decode_raw :: "nat \<Rightarrow> byte list \<Rightarrow> py_error + (header \<times> byte list)" where
  "decode_raw sz data = bindE (read_bytes sz data) (\<lambda>(bs, rest). Inr (Scalar (PBytes bs), rest))"

definition decode_signed :: "nat \<Rightarrow> byte list \<Rightarrow> py_error + (header \<times> byte list)" where
  "decode_signed n data =
     bindE (read_bytes n data) (\<lambda>(bs, rest). Inr (Scalar (PInt (unpack_signed n bs)), rest))"

definition decode_header :: "byte list \<Rightarrow> py_error + (header \<times> byte list)" where
  "decode_header data =
     bindE (read_byte data) (\<lambda>(marker, d0).
        if marker \<le> 0x7F then Inr (Scalar (PInt (uint marker)), d0)
        else if 0x80 \<le> marker \<and> marker \<le> 0x8F then decode_utf8 (unat (marker AND 0x0F)) d0
        else if 0x90 \<le> marker \<and> marker \<le> 0x9F then Inr (ListOf (unat (marker AND 0x0F)), d0)
        else if 0xA0 \<le> marker \<and> marker \<le> 0xAF then Inr (MapOf (unat (marker AND 0x0F)), d0)
        else if 0xB0 \<le> marker \<and> marker \<le> 0xBF then
          bindE (read_byte d0) (\<lambda>(tag, d1). Inr (StructOf (unat (marker AND 0x0F)) tag, d1))
        else if marker = NULL then Inr (Scalar PNone, d0)
        else if marker = FLOAT_64 then
          bindE (read_bytes 8 d0) (\<lambda>(bs, d1). Inr (Scalar (PFloat (of_nat (be_val bs))), d1))
        else if marker = FALSE then Inr (Scalar (PBool False), d0)
        else if marker = TRUE then Inr (Scalar (PBool True), d0)
        else if marker = INT_8 then decode_signed 1 d0
        else if marker = INT_16 then decode_signed 2 d0
        else if marker = INT_32 then decode_signed 4 d0
        else if marker = INT_64 then decode_signed 8 d0
        else if marker \<ge> 0xF0 then Inr (Scalar (PInt (uint marker - 256)), d0)
        else if marker = BYTES_8 then
          bindE (read_byte d0) (\<lambda>(sz, d1). decode_raw (unat sz) d1)
        else if marker = BYTES_16 then
          bindE (read_bytes 2 d0) (\<lambda>(sz, d1). decode_raw (unpack_unsigned sz) d1)
        else if marker = BYTES_32 then
          bindE (read_bytes 4 d0) (\<lambda>(sz, d1). decode_raw (unpack_unsigned sz) d1)
        else if marker = STRING_8 then
          bindE (read_byte d0) (\<lambda>(sz, d1). decode_utf8 (unat sz) d1)
        else if marker = STRING_16 then
          bindE (read_bytes 2 d0) (\<lambda>(sz, d1). decode_utf8 (unpack_unsigned sz) d1)
        else if marker = STRING_32 then
          bindE (read_bytes 4 d0) (\<lambda>(sz, d1). decode_utf8 (unpack_unsigned sz) d1)
        else if marker = LIST_8 then
          bindE (read_byte d0) (\<lambda>(sz, d1). Inr (ListOf (unat sz), d1))
        else if marker = LIST_16 then
          bindE (read_bytes 2 d0) (\<lambda>(sz, d1). Inr (ListOf (unpack_unsigned sz), d1))
        else if marker = LIST_32 then
          bindE (read_bytes 4 d0) (\<lambda>(sz, d1). Inr (ListOf (unpack_unsigned sz), d1))
        else if marker = MAP_8 then
          bindE (read_byte d0) (\<lambda>(sz, d1). Inr (MapOf (unat sz), d1))
        else if marker = MAP_16 then
          bindE (read_bytes 2 d0) (\<lambda>(sz, d1). Inr (MapOf (unpack_unsigned sz), d1))
        else if marker = MAP_32 then
          bindE (read_bytes 4 d0) (\<lambda>(sz, d1). Inr (MapOf (unpack_unsigned sz), d1))
        else if marker = STRUCT_8 then
          bindE (read_byte d0) (\<lambda>(sz, d1).
          bindE (read_byte d1) (\<lambda>(tag, d2). Inr (StructOf (unat sz) tag, d2)))
        else if marker = STRUCT_16 then
          bindE (read_bytes 2 d0) (\<lambda>(sz, d1).
          bindE (read_byte d1) (\<lambda>(tag, d2). Inr (StructOf (unpack_unsigned sz) tag, d2)))
        else Inl (ValueError_UnknownMarker marker))"

text \<open>Every read shortens the data, so the decoder terminates.\<close>

lemma bindE_Inr_iff: "bindE m f = Inr y \<longleftrightarrow> (\<exists>x. m = Inr x \<and> f x = Inr y)"
  by (cases m) (auto simp: bindE_def)

lemma read_byte_Inr: "read_byte data = Inr (b, r) \<longleftrightarrow> data = b # r"
  by (cases data) (auto simp: read_byte_def)

lemma read_bytes_Inr:
  "read_bytes n data = Inr (bs, r) \<longleftrightarrow> n \<le> length data \<and> bs = take n data \<and> r = drop n data"
  by (auto simp: read_bytes_def)


definition shorter :: "byte list \<Rightarrow> py_error + ('a \<times> byte list) \<Rightarrow> bool" where
  "shorter d r = (case r of Inl e \<Rightarrow> True | Inr (x, d') \<Rightarrow> length d' \<le> length d)"

definition strictly_shorter :: "byte list \<Rightarrow> py_error + ('a \<times> byte list) \<Rightarrow> bool" where
  "strictly_shorter d r = (case r of Inl e \<Rightarrow> True | Inr (x, d') \<Rightarrow> length d' < length d)"

lemma shorter_Inr: "shorter d (Inr (x, d))" "shorter d (Inl e)"
  by (simp_all add: shorter_def)

lemma shorter_bind_read_byte:
  assumes "\<And>b d'. shorter d' (g b d')"
  shows "shorter d (bindE (read_byte d) (case_prod g))"
proof (cases d)
  case Nil then show ?thesis by (simp add: bindE_def read_byte_def shorter_def)
next
  case (Cons a list)
  show ?thesis using assms[of list a]
    by (auto simp add: Cons bindE_def read_byte_def shorter_def split: sum.splits)
qed

lemma strictly_bind_read_byte:
  assumes "\<And>b d'. shorter d' (g b d')"
  shows "strictly_shorter d (bindE (read_byte d) (case_prod g))"
proof (cases d)
  case Nil then show ?thesis by (simp add: bindE_def read_byte_def strictly_shorter_def)
next
  case (Cons a list)
  show ?thesis using assms[of list a]
    by (auto simp add: Cons bindE_def read_byte_def shorter_def strictly_shorter_def split: sum.splits)
qed

lemma shorter_bind_read_bytes:
  assumes "\<And>b d'. shorter d' (g b d')"
  shows "shorter d (bindE (read_bytes n d) (case_prod g))"
proof (cases "n > length d")
  case True then show ?thesis by (simp add: bindE_def read_bytes_def shorter_def)
next
  case False
  show ?thesis using assms[of "drop n d" "take n d"] False
    by (auto simp add: bindE_def read_bytes_def shorter_def split: sum.splits)
qed

lemma shorter_leaf:
  "shorter d (decode_utf8 n d)" "shorter d (decode_raw n d)" "shorter d (decode_signed n d)"
  by (auto simp: decode_utf8_def decode_raw_def decode_signed_def bindE_def read_bytes_def shorter_def split: sum.splits)

lemma shorter_if: "(c \<Longrightarrow> shorter d a) \<Longrightarrow> (\<not> c \<Longrightarrow> shorter d b) \<Longrightarrow> shorter d (if c then a else b)"
  by simp

lemma decode_header_shorter: "strictly_shorter d (decode_header d)"
  unfolding decode_header_def
  by (rule strictly_bind_read_byte)
     (intro shorter_if shorter_leaf shorter_bind_read_byte shorter_bind_read_bytes shorter_Inr)

lemma decode_header_length:
  "decode_header d = Inr (h, d') \<Longrightarrow> length d' < length d"
  using decode_header_shorter[of d] by (simp add: strictly_shorter_def)

definition as_list :: "py_error + (pyval list \<times> byte list) \<Rightarrow> py_error + (pyval \<times> byte list)" where
  "as_list r = bindE r (\<lambda>(vs, rest). Inr (PList vs, rest))"

definition as_dict ::
  "py_error + ((pyval \<times> pyval) list \<times> byte list) \<Rightarrow> py_error + (pyval \<times> byte list)" where
  "as_dict r = bindE r (\<lambda>(kvs, rest). Inr (PDict kvs, rest))"

definition as_structure ::
  "byte \<Rightarrow> py_error + (pyval list \<times> byte list) \<Rightarrow> py_error + (pyval \<times> byte list)" where
  "as_structure tag r = bindE r (\<lambda>(vs, rest). Inr (PStructure (uint tag) vs, rest))"

function decode_value :: "byte list \<Rightarrow> py_error + (pyval \<times> byte list)"
  and decode_items :: "nat \<Rightarrow> byte list \<Rightarrow> py_error + (pyval list \<times> byte list)"
  and decode_pairs ::
    "nat \<Rightarrow> (pyval \<times> pyval) list \<Rightarrow> byte list \<Rightarrow> py_error + ((pyval \<times> pyval) list \<times> byte list)"
where
  "decode_value data =
     (case decode_header data of
        Inl e \<Rightarrow> Inl e
      | Inr (Scalar v, d) \<Rightarrow> Inr (v, d)
      | Inr (ListOf n, d) \<Rightarrow> as_list (decode_items n d)
      | Inr (MapOf n, d) \<Rightarrow> as_dict (decode_pairs n [] d)
      | Inr (StructOf n tag, d) \<Rightarrow> as_structure tag (decode_items n d))"
| "decode_items 0 data = Inr ([], data)"
| "decode_items (Suc n) data =
     (case decode_value data of Inl e \<Rightarrow> Inl e | Inr (v, d1) \<Rightarrow>
        (case decode_items n d1 of Inl e \<Rightarrow> Inl e | Inr (vs, d2) \<Rightarrow> Inr (v # vs, d2)))"
| "decode_pairs 0 acc data = Inr (acc, data)"
| "decode_pairs (Suc n) acc data =
     (case decode_value data of Inl e \<Rightarrow> Inl e | Inr (k, d1) \<Rightarrow>
        (case decode_value d1 of Inl e \<Rightarrow> Inl e | Inr (v, d2) \<Rightarrow>
           (case dict_setitem acc k v of Inl e \<Rightarrow> Inl e | Inr acc' \<Rightarrow>
              decode_pairs n acc' d2)))"
  by pat_completeness auto

lemma as_list_Inr: "as_list x = Inr (v, r) \<longleftrightarrow> (\<exists>vs. x = Inr (vs, r) \<and> v = PList vs)"
  by (auto simp: as_list_def bindE_Inr_iff)

lemma as_dict_Inr: "as_dict x = Inr (v, r) \<longleftrightarrow> (\<exists>vs. x = Inr (vs, r) \<and> v = PDict vs)"
  by (auto simp: as_dict_def bindE_Inr_iff)

lemma as_structure_Inr:
  "as_structure t x = Inr (v, r) \<longleftrightarrow> (\<exists>vs. x = Inr (vs, r) \<and> v = PStructure (uint t) vs)"
  by (auto simp: as_structure_def bindE_Inr_iff)

lemma decode_len:
  "decode_value_decode_items_decode_pairs_dom (Inl data) \<Longrightarrow>
     decode_value data = Inr (v, rest) \<Longrightarrow> length rest < length data"
  "decode_value_decode_items_decode_pairs_dom (Inr (Inl (n, data))) \<Longrightarrow>
     decode_items n data = Inr (vs, rest) \<Longrightarrow> length rest \<le> length data"
  "decode_value_decode_items_decode_pairs_dom (Inr (Inr (n, acc, data))) \<Longrightarrow>
     decode_pairs n acc data = Inr (kvs, rest) \<Longrightarrow> length rest \<le> length data"
proof (induct data and n data and n acc data arbitrary: v rest and vs rest and kvs rest
    rule: decode_value_decode_items_decode_pairs.pinduct)
  case (1 data)
  note dom = "1.hyps"(1)
  note dv = "1.prems"
  obtain h d where hd: "decode_header data = Inr (h, d)"
    using dv by (cases "decode_header data") (auto simp: decode_value.psimps[OF dom])
  have dl: "length d < length data"
    using decode_header_length[OF hd] .
  show ?case
  proof (cases h)
    case (Scalar x)
    with dv hd dl show ?thesis by (simp add: decode_value.psimps[OF dom])
  next
    case (ListOf n)
    with dv hd obtain vs where "decode_items n d = Inr (vs, rest)"
      by (auto simp: decode_value.psimps[OF dom] as_list_Inr)
    from "1.hyps"(2)[OF hd refl ListOf this] dl show ?thesis by simp
  next
    case (MapOf n)
    with dv hd obtain kvs where "decode_pairs n [] d = Inr (kvs, rest)"
      by (auto simp: decode_value.psimps[OF dom] as_dict_Inr)
    from "1.hyps"(3)[OF hd refl MapOf this] dl show ?thesis by simp
  next
    case (StructOf n tag)
    with dv hd obtain vs where "decode_items n d = Inr (vs, rest)"
      by (auto simp: decode_value.psimps[OF dom] as_structure_Inr)
    from "1.hyps"(4)[OF hd refl StructOf this] dl show ?thesis by simp
  qed
next
  case (2 data)
  then show ?case by (simp add: decode_items.psimps)
next
  case (3 n data)
  then show ?case
    by (fastforce simp: decode_items.psimps split: sum.splits prod.splits)
next
  case (4 acc data)
  then show ?case by (simp add: decode_pairs.psimps)
next
  case (5 n acc data)
  then show ?case
    by (fastforce simp: decode_pairs.psimps split: sum.splits prod.splits)
qed

termination decode_value
  apply (relation "measures [\<lambda>x. case x of Inl data \<Rightarrow> length data | Inr (Inl (n, data)) \<Rightarrow> length data
                                   | Inr (Inr (n, acc, data)) \<Rightarrow> length data,
                            \<lambda>x. case x of Inl data \<Rightarrow> 0 | Inr (Inl (n, data)) \<Rightarrow> Suc n
                                   | Inr (Inr (n, acc, data)) \<Rightarrow> Suc n]")
  apply (auto dest!: decode_header_length decode_len)
  done

declare decode_value.simps [simp del]

definition decode :: "byte list \<Rightarrow> py_error + pyval" where
  "decode data =
     (if length data \<le> 0 then Inl ValueError_EndOfData
      else bindE (decode_value data) (\<lambda>(v, rest). Inr v))"

subsection \<open>Integer lanes, in the words of the specification\<close>

text \<open>
  The specification names six integer forms: the tiny-positive and tiny-negative
  single bytes, and Int8, Int16, Int32, Int64 (a marker followed by the big-endian
  two's complement of the value).  \<open>narrowest_lane\<close> chooses as the specification
  says; none of the definitions below is taken from \<open>_encode_int\<close>.
\<close>

datatype int_lane = TinyPositive | TinyNegative | Int8 | Int16 | Int32 | Int64

fun lane_holds :: "int_lane \<Rightarrow> int \<Rightarrow> bool" where
  "lane_holds TinyPositive v \<longleftrightarrow> 0 \<le> v \<and> v \<le> 127"
| "lane_holds TinyNegative v \<longleftrightarrow> -16 \<le> v \<and> v \<le> -1"
| "lane_holds Int8 v \<longleftrightarrow> - (2 ^ 7) \<le> v \<and> v < 2 ^ 7"
| "lane_holds Int16 v \<longleftrightarrow> - (2 ^ 15) \<le> v \<and> v < 2 ^ 15"
| "lane_holds Int32 v \<longleftrightarrow> - (2 ^ 31) \<le> v \<and> v < 2 ^ 31"
| "lane_holds Int64 v \<longleftrightarrow> - (2 ^ 63) \<le> v \<and> v < 2 ^ 63"

fun lane_length :: "int_lane \<Rightarrow> nat" where
  "lane_length TinyPositive = 1"
| "lane_length TinyNegative = 1"
| "lane_length Int8 = 2"
| "lane_length Int16 = 3"
| "lane_length Int32 = 5"
| "lane_length Int64 = 9"

definition twos_complement :: "nat \<Rightarrow> int \<Rightarrow> byte list" where
  "twos_complement n v = be_bytes n (nat (v mod 2 ^ (8 * n)))"

fun lane_form :: "int_lane \<Rightarrow> int \<Rightarrow> byte list" where
  "lane_form TinyPositive v = [word_of_int v]"
| "lane_form TinyNegative v = [word_of_int (256 + v)]"
| "lane_form Int8 v = 0xC8 # twos_complement 1 v"
| "lane_form Int16 v = 0xC9 # twos_complement 2 v"
| "lane_form Int32 v = 0xCA # twos_complement 4 v"
| "lane_form Int64 v = 0xCB # twos_complement 8 v"

definition narrowest_lane :: "int \<Rightarrow> int_lane" where
  "narrowest_lane v =
     (if 0 \<le> v \<and> v \<le> 127 then TinyPositive
      else if -16 \<le> v \<and> v \<le> -1 then TinyNegative
      else if lane_holds Int8 v then Int8
      else if lane_holds Int16 v then Int16
      else if lane_holds Int32 v then Int32
      else Int64)"

section \<open>Chunk framing (chunking.py)\<close>

subsection \<open>\<open>ChunkWriter\<close>\<close>

text \<open>
  The loop of \<open>ChunkWriter.write\<close> does not end when \<open>max_chunk_size\<close> is \<open>0\<close> and the
  message is not empty, so it is a partial function: \<open>None\<close> is a call that does not
  return.  A negative \<open>max_chunk_size\<close> makes \<open>struct.pack('>H', chunk_size)\<close> raise.
\<close>

definition MAX_CHUNK_SIZE :: int where "MAX_CHUNK_SIZE = 65535"

record ChunkWriter =
  max_chunk_size :: int

definition ChunkWriter_init :: "int \<Rightarrow> ChunkWriter" where
  "ChunkWriter_init mcs = \<lparr>max_chunk_size = min mcs MAX_CHUNK_SIZE\<rparr>"

partial_function (option) write_loop ::
  "int \<Rightarrow> byte list \<Rightarrow> nat \<Rightarrow> byte list \<Rightarrow> (py_error + byte list) option" where
  "write_loop mcs data offset result =
     (if offset < length data then
        (let chunk_size = min (int (length data) - int offset) mcs in
         case pack_unsigned 2 chunk_size of
           Inl e \<Rightarrow> Some (Inl e)
         | Inr header \<Rightarrow>
             write_loop mcs data (offset + nat chunk_size)
               (result @ header @ take (nat chunk_size) (drop offset data)))
      else Some (Inr (result @ [0, 0])))"

declare write_loop.simps [code]

definition writer_write :: "ChunkWriter \<Rightarrow> byte list \<Rightarrow> (py_error + byte list) option" where
  "writer_write w data = write_loop (max_chunk_size w) data 0 []"

subsection \<open>\<open>ChunkReader\<close>\<close>

text \<open>
  \<open>read_chunk_size\<close> is the first step of the loop body of \<open>_try_read_message\<close>: the
  chunk size already expected, or the one read from the two header bytes; \<open>None\<close> when
  the header is not complete, where the method returns \<open>None\<close>.
\<close>

record ChunkReader =
  buffer :: "byte list"
  message_buffer :: "byte list"
  expected_chunk_size :: "nat option"

definition ChunkReader_init :: ChunkReader where
  "ChunkReader_init = \<lparr>buffer = [], message_buffer = [], expected_chunk_size = None\<rparr>"

definition read_chunk_size :: "ChunkReader \<Rightarrow> (nat \<times> ChunkReader) option" where
  "read_chunk_size r =
     (case expected_chunk_size r of
        None \<Rightarrow>
          if length (buffer r) < 2 then None
          else
            (let n = unpack_unsigned (take 2 (buffer r))
             in Some (n, r\<lparr>expected_chunk_size := Some n, buffer := drop 2 (buffer r)\<rparr>))
      | Some n \<Rightarrow> Some (n, r))"

definition reader_measure :: "ChunkReader \<Rightarrow> nat" where
  "reader_measure r =
     2 * length (buffer r) + (case expected_chunk_size r of None \<Rightarrow> 0 | Some n \<Rightarrow> 1)"

function try_read_message :: "ChunkReader \<Rightarrow> byte list option \<times> ChunkReader" where
  "try_read_message r =
     (case read_chunk_size r of
        None \<Rightarrow> (None, r)
      | Some (n, r1) \<Rightarrow>
          if n = 0 then
            (let r2 = r1\<lparr>expected_chunk_size := None\<rparr>
             in if message_buffer r2 \<noteq> []
                then (Some (message_buffer r2), r2\<lparr>message_buffer := []\<rparr>)
                else try_read_message r2)
          else if length (buffer r1) < n then (None, r1)
          else
            try_read_message
              (r1\<lparr>message_buffer := message_buffer r1 @ take n (buffer r1),
                  buffer := drop n (buffer r1),
                  expected_chunk_size := None\<rparr>))"
  by pat_completeness auto
termination
  by (relation "measure reader_measure")
     (auto simp: reader_measure_def read_chunk_size_def Let_def split: option.splits if_splits)

declare try_read_message.simps [simp del]

lemma read_chunk_size_measure:
  assumes "read_chunk_size r = Some (n, r1)"
  shows "reader_measure r1 \<le> reader_measure r" and "expected_chunk_size r1 = Some n"
    and "reader_measure r1 = 2 * length (buffer r1) + 1"
  using assms
  by (auto simp: read_chunk_size_def reader_measure_def Let_def split: option.splits if_splits)

lemma try_read_message_measure:
  "try_read_message r = (x, r') \<Longrightarrow>
     reader_measure r' \<le> reader_measure r \<and> (x \<noteq> None \<longrightarrow> reader_measure r' < reader_measure r)"
proof (induction r arbitrary: x r' rule: try_read_message.induct)
  case (1 r)
  show ?case
  proof (cases "read_chunk_size r")
    case None
    with "1.prems" show ?thesis by (simp add: try_read_message.simps[of r])
  next
    case (Some p)
    obtain n r1 where p: "p = (n, r1)" by (cases p)
    note rc = Some[unfolded p]
    note m = read_chunk_size_measure[OF rc]
    define r2 where "r2 = r1\<lparr>expected_chunk_size := None\<rparr>"
    define r3 where "r3 = r1\<lparr>message_buffer := message_buffer r1 @ take n (buffer r1),
                  buffer := drop n (buffer r1), expected_chunk_size := None\<rparr>"
    have m2: "reader_measure r2 < reader_measure r"
      using m by (simp add: r2_def reader_measure_def)
    have m3: "0 < n \<Longrightarrow> n \<le> length (buffer r1) \<Longrightarrow> reader_measure r3 < reader_measure r"
      using m by (simp add: r3_def reader_measure_def)
    consider (eom) "n = 0" "message_buffer r2 \<noteq> []"
      | (skip) "n = 0" "message_buffer r2 = []"
      | (wait) "n \<noteq> 0" "length (buffer r1) < n"
      | (chunk) "n \<noteq> 0" "\<not> length (buffer r1) < n"
      by blast
    then show ?thesis
    proof cases
      case eom
      with "1.prems" rc have "x = Some (message_buffer r2)" "r' = r2\<lparr>message_buffer := []\<rparr>"
        by (simp_all add: try_read_message.simps[of r] r2_def Let_def)
      with m2 show ?thesis by (simp add: reader_measure_def)
    next
      case skip
      with "1.prems" rc have "try_read_message r2 = (x, r')"
        by (simp add: try_read_message.simps[of r] r2_def Let_def)
      moreover have "\<not> message_buffer r2 \<noteq> []" using skip by simp
      ultimately show ?thesis
        using "1.IH"(1)[OF rc refl skip(1) r2_def] m2 by fastforce
    next
      case wait
      with "1.prems" rc have "x = None" "r' = r1"
        by (simp_all add: try_read_message.simps[of r] Let_def)
      with m show ?thesis by simp
    next
      case chunk
      with "1.prems" rc have "try_read_message r3 = (x, r')"
        by (simp add: try_read_message.simps[of r] r3_def Let_def)
      then show ?thesis
        using "1.IH"(2)[OF rc refl chunk, of x r'] m3 chunk by (fastforce simp: r3_def)
    qed
  qed
qed

function feed_loop :: "ChunkReader \<Rightarrow> byte list list \<Rightarrow> byte list list \<times> ChunkReader" where
  "feed_loop r messages =
     (case try_read_message r of
        (None, r') \<Rightarrow> (messages, r')
      | (Some message, r') \<Rightarrow> feed_loop r' (messages @ [message]))"
  by pat_completeness auto
termination
  by (relation "measure (\<lambda>(r, messages). reader_measure r)")
     (auto dest!: sym[THEN try_read_message_measure])

declare feed_loop.simps [simp del]

definition feed :: "ChunkReader \<Rightarrow> byte list \<Rightarrow> byte list list \<times> ChunkReader" where
  "feed r data = feed_loop (r\<lparr>buffer := buffer r @ data\<rparr>) []"

definition clear :: "ChunkReader \<Rightarrow> ChunkReader" where
  "clear r = r\<lparr>buffer := [], message_buffer := [], expected_chunk_size := None\<rparr>"

fun feed_seq :: "ChunkReader \<Rightarrow> byte list list \<Rightarrow> byte list list list \<times> ChunkReader" where
  "feed_seq r [] = ([], r)"
| "feed_seq r (p # ps) =
     (case feed r p of (messages, r1) \<Rightarrow>
        (case feed_seq r1 ps of (rest, r2) \<Rightarrow> (messages # rest, r2)))"

function frames :: "nat \<Rightarrow> byte list \<Rightarrow> byte list" where
  "frames k data =
     (if data = [] \<or> k = 0 then []
      else be_bytes 2 (min (length data) k) @ take k data @ frames k (drop k data))"
  by pat_completeness auto
termination
  by (relation "measure (\<lambda>(k, data). length data)") auto

declare frames.simps [simp del]


text \<open>
  Feeding a list of slices one after the other, with the messages each call returns.
  \<open>reader_idle mb\<close> is a reader between two chunks with \<open>mb\<close> accumulated; \<open>blocked\<close>
  says that the reader needs more bytes before it can go on.
\<close>

definition reader_idle :: "byte list \<Rightarrow> ChunkReader" where
  "reader_idle mb = \<lparr>buffer = [], message_buffer = mb, expected_chunk_size = None\<rparr>"

definition blocked :: "ChunkReader \<Rightarrow> bool" where
  "blocked r \<longleftrightarrow> try_read_message r = (None, r)"

section \<open>Connection state machine (state.py)\<close>

fun VALID_TRANSITIONS :: "ConnectionState \<Rightarrow> ConnectionState set" where
  "VALID_TRANSITIONS NEGOTIATION = {AUTHENTICATION, DEFUNCT}"
| "VALID_TRANSITIONS AUTHENTICATION = {READY, DEFUNCT}"
| "VALID_TRANSITIONS READY = {STREAMING, TX_READY, FAILED, DEFUNCT}"
| "VALID_TRANSITIONS STREAMING = {READY, STREAMING, FAILED, DEFUNCT}"
| "VALID_TRANSITIONS TX_READY = {TX_STREAMING, READY, FAILED, DEFUNCT}"
| "VALID_TRANSITIONS TX_STREAMING = {TX_READY, TX_STREAMING, FAILED, DEFUNCT}"
| "VALID_TRANSITIONS FAILED = {READY, DEFUNCT}"
| "VALID_TRANSITIONS DEFUNCT = {}"

text \<open>
  \<open>StateMachine\<close> has the one field \<open>_state\<close>.  A method takes the object and returns
  its outcome together with the object as the call leaves it.
\<close>

record StateMachine =
  sm_state :: ConnectionState

definition StateMachine_init :: StateMachine where
  "StateMachine_init = \<lparr>sm_state = NEGOTIATION\<rparr>"

definition can_transition_to :: "StateMachine \<Rightarrow> ConnectionState \<Rightarrow> bool" where
  "can_transition_to sm new_state \<longleftrightarrow> new_state \<in> VALID_TRANSITIONS (sm_state sm)"

definition transition_to ::
  "StateMachine \<Rightarrow> ConnectionState \<Rightarrow> (py_error + unit) \<times> StateMachine" where
  "transition_to sm new_state =
     (if \<not> can_transition_to sm new_state
      then (Inl (ValueError_InvalidTransition (sm_state sm) new_state), sm)
      else (Inr (), sm\<lparr>sm_state := new_state\<rparr>))"

definition sm_reset :: "StateMachine \<Rightarrow> StateMachine" where
  "sm_reset sm =
     (if sm_state sm = FAILED then sm\<lparr>sm_state := READY\<rparr>
      else if sm_state sm \<noteq> DEFUNCT then sm\<lparr>sm_state := READY\<rparr>
      else sm)"

definition is_defunct :: "StateMachine \<Rightarrow> bool" where
  "is_defunct sm \<longleftrightarrow> sm_state sm = DEFUNCT"

definition is_in_transaction :: "StateMachine \<Rightarrow> bool" where
  "is_in_transaction sm \<longleftrightarrow> sm_state sm \<in> {TX_READY, TX_STREAMING}"

definition is_streaming :: "StateMachine \<Rightarrow> bool" where
  "is_streaming sm \<longleftrightarrow> sm_state sm \<in> {STREAMING, TX_STREAMING}"

definition mark_defunct :: "StateMachine \<Rightarrow> StateMachine" where
  "mark_defunct sm = sm\<lparr>sm_state := DEFUNCT\<rparr>"

section \<open>Python expressions used by the server\<close>

text \<open>
  String literals of the source are written \<open>S ''...''\<close>.  \<open>py_truthy\<close> is the truth value
  of an object in \<open>if x\<close> and \<open>x or y\<close>; \<open>py_list\<close> is \<open>list(x)\<close> and the iteration over
  \<open>x\<close>; \<open>dict_get\<close> is \<open>d.get(k, default)\<close> and \<open>dict_contains\<close> is \<open>k in d\<close> for a
  hashable key.  \<open>public_items d\<close> is the comprehension
  \<open>{k: v for k, v in d.items() if not k.startswith('__')}\<close>: a key that is not a \<open>str\<close>
  has no usable \<open>startswith\<close>, which raises at the first such key.
\<close>

definition str_lit :: "string \<Rightarrow> nat list" where
  "str_lit s = map of_char s"

definition S :: "string \<Rightarrow> pyval" where
  "S s = PStr (str_lit s)"

definition py_truthy :: "pyval \<Rightarrow> bool" where
  "py_truthy v =
     (case v of
        PNone \<Rightarrow> False
      | PBool b \<Rightarrow> b
      | PInt i \<Rightarrow> i \<noteq> 0
      | PFloat f \<Rightarrow> f AND 0x7FFFFFFFFFFFFFFF \<noteq> 0
      | PStr s \<Rightarrow> s \<noteq> []
      | PBytes b \<Rightarrow> b \<noteq> []
      | PList xs \<Rightarrow> xs \<noteq> []
      | PTuple xs \<Rightarrow> xs \<noteq> []
      | PDict d \<Rightarrow> d \<noteq> []
      | PStructure t fs \<Rightarrow> True)"

definition py_list :: "pyval \<Rightarrow> py_error + pyval list" where
  "py_list v =
     (case v of
        PList xs \<Rightarrow> Inr xs
      | PTuple xs \<Rightarrow> Inr xs
      | PDict d \<Rightarrow> Inr (map fst d)
      | PStr s \<Rightarrow> Inr (map (\<lambda>c. PStr [c]) s)
      | PBytes b \<Rightarrow> Inr (map (\<lambda>x. PInt (uint x)) b)
      | _ \<Rightarrow> Inl TypeError_NotIterable)"

definition dict_get :: "(pyval \<times> pyval) list \<Rightarrow> pyval \<Rightarrow> pyval \<Rightarrow> pyval" where
  "dict_get d k dflt = (case map_of d k of None \<Rightarrow> dflt | Some v \<Rightarrow> v)"

definition dict_contains :: "(pyval \<times> pyval) list \<Rightarrow> pyval \<Rightarrow> bool" where
  "dict_contains d k \<longleftrightarrow> map_of d k \<noteq> None"

fun public_items :: "(pyval \<times> pyval) list \<Rightarrow> py_error + (pyval \<times> pyval) list" where
  "public_items [] = Inr []"
| "public_items ((k, v) # kvs) =
     (case k of
        PStr s \<Rightarrow>
          bindE (public_items kvs)
            (\<lambda>rest. Inr (if take 2 s = str_lit ''__'' then rest else (k, v) # rest))
      | PBytes b \<Rightarrow> Inl TypeError_BadOperand
      | _ \<Rightarrow> Inl AttributeError)"

section \<open>Messages and graph structures (messages.py)\<close>

text \<open>
  The dataclasses \<open>BoltNode\<close>, \<open>BoltRelationship\<close>, \<open>BoltUnboundRelationship\<close> and
  \<open>BoltPath\<close> are records; their fields carry a prefix because field names are global
  in HOL.  \<open>str_or strf s i\<close> is the expression \<open>s or str(i)\<close> of the \<open>to_structure\<close>
  methods.  Python's \<open>str\<close> on a value that is not a \<open>str\<close> is the parameter \<open>strf\<close>.
\<close>

definition MSG_HELLO :: int where "MSG_HELLO = 0x01"
definition MSG_GOODBYE :: int where "MSG_GOODBYE = 0x02"
definition MSG_RESET :: int where "MSG_RESET = 0x0F"
definition MSG_RUN :: int where "MSG_RUN = 0x10"
definition MSG_BEGIN :: int where "MSG_BEGIN = 0x11"
definition MSG_COMMIT :: int where "MSG_COMMIT = 0x12"
definition MSG_ROLLBACK :: int where "MSG_ROLLBACK = 0x13"
definition MSG_DISCARD :: int where "MSG_DISCARD = 0x2F"
definition MSG_PULL :: int where "MSG_PULL = 0x3F"
definition MSG_ROUTE :: int where "MSG_ROUTE = 0x66"
definition MSG_LOGON :: int where "MSG_LOGON = 0x6A"
definition MSG_LOGOFF :: int where "MSG_LOGOFF = 0x6B"
definition MSG_TELEMETRY :: int where "MSG_TELEMETRY = 0x54"

definition MSG_SUCCESS :: int where "MSG_SUCCESS = 0x70"
definition MSG_RECORD :: int where "MSG_RECORD = 0x71"
definition MSG_IGNORED :: int where "MSG_IGNORED = 0x7E"
definition MSG_FAILURE :: int where "MSG_FAILURE = 0x7F"

definition STRUCT_NODE :: int where "STRUCT_NODE = 0x4E"
definition STRUCT_RELATIONSHIP :: int where "STRUCT_RELATIONSHIP = 0x52"
definition STRUCT_UNBOUND_REL :: int where "STRUCT_UNBOUND_REL = 0x72"
definition STRUCT_PATH :: int where "STRUCT_PATH = 0x50"

record BoltNode =
  node_id :: int
  node_labels :: "pyval list"
  node_properties :: "(pyval \<times> pyval) list"
  node_element_id :: "nat list"

record BoltRelationship =
  rel_id :: int
  rel_start_node_id :: int
  rel_end_node_id :: int
  rel_type :: "nat list"
  rel_properties :: "(pyval \<times> pyval) list"
  rel_element_id :: "nat list"
  rel_start_element_id :: "nat list"
  rel_end_element_id :: "nat list"

record BoltUnboundRelationship =
  urel_id :: int
  urel_type :: "nat list"
  urel_properties :: "(pyval \<times> pyval) list"
  urel_element_id :: "nat list"

record BoltPath =
  path_nodes :: "BoltNode list"
  path_relationships :: "BoltUnboundRelationship list"
  path_indices :: "int list"

definition str_or :: "(pyval \<Rightarrow> nat list) \<Rightarrow> nat list \<Rightarrow> int \<Rightarrow> pyval" where
  "str_or strf s i = PStr (if s \<noteq> [] then s else py_str strf (PInt i))"

definition node_to_structure :: "(pyval \<Rightarrow> nat list) \<Rightarrow> BoltNode \<Rightarrow> pyval" where
  "node_to_structure strf n =
     PStructure STRUCT_NODE
       [PInt (node_id n), PList (node_labels n), PDict (node_properties n),
        str_or strf (node_element_id n) (node_id n)]"

definition relationship_to_structure :: "(pyval \<Rightarrow> nat list) \<Rightarrow> BoltRelationship \<Rightarrow> pyval" where
  "relationship_to_structure strf r =
     PStructure STRUCT_RELATIONSHIP
       [PInt (rel_id r), PInt (rel_start_node_id r), PInt (rel_end_node_id r),
        PStr (rel_type r), PDict (rel_properties r),
        str_or strf (rel_element_id r) (rel_id r),
        str_or strf (rel_start_element_id r) (rel_start_node_id r),
        str_or strf (rel_end_element_id r) (rel_end_node_id r)]"

definition unbound_to_structure ::
  "(pyval \<Rightarrow> nat list) \<Rightarrow> BoltUnboundRelationship \<Rightarrow> pyval" where
  "unbound_to_structure strf r =
     PStructure STRUCT_UNBOUND_REL
       [PInt (urel_id r), PStr (urel_type r), PDict (urel_properties r),
        str_or strf (urel_element_id r) (urel_id r)]"

definition path_to_structure :: "(pyval \<Rightarrow> nat list) \<Rightarrow> BoltPath \<Rightarrow> pyval" where
  "path_to_structure strf p =
     PStructure STRUCT_PATH
       [PList (map (node_to_structure strf) (path_nodes p)),
        PList (map (unbound_to_structure strf) (path_relationships p)),
        PList (map PInt (path_indices p))]"

definition create_success :: "pyval \<Rightarrow> pyval" where
  "create_success metadata =
     PStructure MSG_SUCCESS [if py_truthy metadata then metadata else PDict []]"

definition create_failure :: "pyval \<Rightarrow> pyval \<Rightarrow> pyval" where
  "create_failure code message =
     PStructure MSG_FAILURE [PDict [(S ''code'', code), (S ''message'', message)]]"

definition create_record :: "pyval \<Rightarrow> pyval" where
  "create_record flds = PStructure MSG_RECORD [flds]"

definition create_ignored :: pyval where
  "create_ignored = PStructure MSG_IGNORED [PDict []]"

section \<open>Sessions and transactions (session.py)\<close>

text \<open>
  A graph is a mutable object that the session, the connection and the query engine
  share by reference.  The objects live in a heap: \<open>cells h a\<close> is the content of the
  object at address \<open>a\<close>, and the addresses below \<open>next_ref h\<close> are the allocated ones.
  The content type \<open>'g\<close> is a parameter.  \<open>copy.deepcopy\<close> allocates a new object with
  the same content; \<open>mutate h a f\<close> changes the object at \<open>a\<close> in place.  The methods
  \<open>clear\<close> and \<open>update\<close> of the graph are the parameters \<open>g_clear\<close> and \<open>g_update\<close> of
  \<open>commit_transaction\<close>.

  The cursor of a \<open>QueryResult\<close> is a natural number: it starts at 0 and the methods
  only move it forward, up to the number of records.
\<close>

record 'g Heap =
  cells :: "nat \<Rightarrow> 'g"
  next_ref :: nat

definition deepcopy :: "'g Heap \<Rightarrow> nat \<Rightarrow> nat \<times> 'g Heap" where
  "deepcopy h a =
     (next_ref h, h\<lparr>cells := (cells h)(next_ref h := cells h a), next_ref := Suc (next_ref h)\<rparr>)"

definition mutate :: "'g Heap \<Rightarrow> nat \<Rightarrow> ('g \<Rightarrow> 'g) \<Rightarrow> 'g Heap" where
  "mutate h a f = h\<lparr>cells := (cells h)(a := f (cells h a))\<rparr>"

record QueryResult =
  qr_fields :: "pyval list"
  qr_records :: "pyval list list"
  cursor :: nat

definition pull :: "int \<Rightarrow> QueryResult \<Rightarrow> pyval list list \<times> QueryResult" where
  "pull n q =
     (if n < 0 then (drop (cursor q) (qr_records q), q\<lparr>cursor := length (qr_records q)\<rparr>)
      else
        (let e = min (cursor q + nat n) (length (qr_records q))
         in (take (e - cursor q) (drop (cursor q) (qr_records q)), q\<lparr>cursor := e\<rparr>)))"

definition has_more :: "QueryResult \<Rightarrow> bool" where
  "has_more q \<longleftrightarrow> cursor q < length (qr_records q)"

definition qr_reset :: "QueryResult \<Rightarrow> QueryResult" where
  "qr_reset q = q\<lparr>cursor := 0\<rparr>"

definition discard :: "int \<Rightarrow> QueryResult \<Rightarrow> int \<times> QueryResult" where
  "discard n q =
     (if n < 0 then
        (int (length (qr_records q)) - int (cursor q), q\<lparr>cursor := length (qr_records q)\<rparr>)
      else
        (let e = min (cursor q + nat n) (length (qr_records q))
         in (int e - int (cursor q), q\<lparr>cursor := e\<rparr>)))"

record BoltSession =
  graph :: nat
  current_result :: "QueryResult option"
  in_transaction :: bool
  tx_graph :: "nat option"
  bookmarks :: "pyval list"
  database :: "nat list"
  last_qid :: int

definition BoltSession_init :: "nat \<Rightarrow> BoltSession" where
  "BoltSession_init g =
     \<lparr>graph = g, current_result = None, in_transaction = False, tx_graph = None,
      bookmarks = [], database = str_lit ''neo4j'', last_qid = -1\<rparr>"

definition begin_transaction ::
  "BoltSession \<Rightarrow> 'g Heap \<Rightarrow> (py_error + unit) \<times> BoltSession \<times> 'g Heap" where
  "begin_transaction s h =
     (if in_transaction s then (Inl RuntimeError_AlreadyInTransaction, s, h)
      else
        (case deepcopy h (graph s) of
           (a, h') \<Rightarrow> (Inr (), s\<lparr>tx_graph := Some a, in_transaction := True\<rparr>, h')))"

definition commit_transaction ::
  "('g \<Rightarrow> 'g) \<Rightarrow> ('g \<Rightarrow> 'g \<Rightarrow> 'g) \<Rightarrow> BoltSession \<Rightarrow> 'g Heap
     \<Rightarrow> (py_error + unit) \<times> BoltSession \<times> 'g Heap" where
  "commit_transaction g_clear g_update s h =
     (if \<not> in_transaction s then (Inl RuntimeError_NotInTransaction, s, h)
      else
        (let h2 =
           (case tx_graph s of
              None \<Rightarrow> h
            | Some t \<Rightarrow>
                (let h1 = mutate h (graph s) g_clear
                 in mutate h1 (graph s) (\<lambda>g. g_update g (cells h1 t))))
         in (Inr (), s\<lparr>tx_graph := None, in_transaction := False\<rparr>, h2)))"

definition rollback_transaction ::
  "BoltSession \<Rightarrow> 'g Heap \<Rightarrow> (py_error + unit) \<times> BoltSession \<times> 'g Heap" where
  "rollback_transaction s h =
     (if \<not> in_transaction s then (Inl RuntimeError_NotInTransaction, s, h)
      else (Inr (), s\<lparr>tx_graph := None, in_transaction := False\<rparr>, h))"

definition get_working_graph :: "BoltSession \<Rightarrow> nat" where
  "get_working_graph s =
     (case tx_graph s of
        Some t \<Rightarrow> if in_transaction s then t else graph s
      | None \<Rightarrow> graph s)"

definition set_result :: "QueryResult \<Rightarrow> BoltSession \<Rightarrow> int \<times> BoltSession" where
  "set_result r s = (last_qid s + 1, s\<lparr>current_result := Some r, last_qid := last_qid s + 1\<rparr>)"

definition clear_result :: "BoltSession \<Rightarrow> BoltSession" where
  "clear_result s = s\<lparr>current_result := None\<rparr>"

text \<open>
  A sequence of mutations, each applied in place to the graph that
  \<open>get_working_graph\<close> returns, and the sequence begin, mutations, rollback.
\<close>

definition apply_mutations :: "BoltSession \<Rightarrow> 'g Heap \<Rightarrow> ('g \<Rightarrow> 'g) list \<Rightarrow> 'g Heap" where
  "apply_mutations s h fs = foldl (\<lambda>h' f. mutate h' (get_working_graph s) f) h fs"

definition tx_rollback_scenario ::
  "BoltSession \<Rightarrow> 'g Heap \<Rightarrow> ('g \<Rightarrow> 'g) list \<Rightarrow> (py_error + unit) \<times> BoltSession \<times> 'g Heap" where
  "tx_rollback_scenario s h fs =
     (case begin_transaction s h of
        (Inl e, s1, h1) \<Rightarrow> (Inl e, s1, h1)
      | (Inr u, s1, h1) \<Rightarrow> rollback_transaction s1 (apply_mutations s1 h1 fs))"

section \<open>Result converter (converter.py)\<close>

text \<open>
  The converter holds the two ID tables and the two counters.  Its methods change
  them, and may raise after having changed them, so a method is a function from the
  converter to a result and the converter afterwards; \<open>bindS\<close> sequences two of them
  and stops at the first exception.  The tables are association lists in insertion
  order, as Python dicts are.

  \<open>path_loop\<close> is the \<open>for i, element in enumerate(path_data)\<close> loop of
  \<open>_convert_path\<close>; \<open>PathAcc\<close> holds its local variables and \<open>path_step\<close> is one
  iteration.  \<open>direction_index\<close> is the nested conditional that chooses the sign of a
  relationship's index.
\<close>

record ResultConverter =
  node_id_map :: "(pyval \<times> int) list"
  edge_id_map :: "(pyval \<times> int) list"
  next_node_id :: int
  next_edge_id :: int

definition ResultConverter_init :: ResultConverter where
  "ResultConverter_init =
     \<lparr>node_id_map = [], edge_id_map = [], next_node_id = 0, next_edge_id = 0\<rparr>"

definition get_node_id :: "pyval \<Rightarrow> ResultConverter \<Rightarrow> (py_error + int) \<times> ResultConverter" where
  "get_node_id node_key c =
     (if \<not> hashable node_key then (Inl TypeError_Unhashable, c)
      else
        (case map_of (node_id_map c) node_key of
           None \<Rightarrow>
             (Inr (next_node_id c),
              c\<lparr>node_id_map := node_id_map c @ [(node_key, next_node_id c)],
                 next_node_id := next_node_id c + 1\<rparr>)
         | Some i \<Rightarrow> (Inr i, c)))"

definition get_edge_id :: "pyval \<Rightarrow> ResultConverter \<Rightarrow> (py_error + int) \<times> ResultConverter" where
  "get_edge_id edge_key c =
     (if \<not> hashable edge_key then (Inl TypeError_Unhashable, c)
      else
        (case map_of (edge_id_map c) edge_key of
           None \<Rightarrow>
             (Inr (next_edge_id c),
              c\<lparr>edge_id_map := edge_id_map c @ [(edge_key, next_edge_id c)],
                 next_edge_id := next_edge_id c + 1\<rparr>)
         | Some i \<Rightarrow> (Inr i, c)))"

definition lift_result :: "py_error + 'a \<Rightarrow> 's \<Rightarrow> (py_error + 'a) \<times> 's" where
  "lift_result r s = (r, s)"

definition bindS ::
  "('s \<Rightarrow> (py_error + 'a) \<times> 's) \<Rightarrow> ('a \<Rightarrow> 's \<Rightarrow> (py_error + 'b) \<times> 's)
     \<Rightarrow> 's \<Rightarrow> (py_error + 'b) \<times> 's" where
  "bindS m f s = (case m s of (Inl e, s') \<Rightarrow> (Inl e, s') | (Inr x, s') \<Rightarrow> f x s')"

definition returnS :: "'a \<Rightarrow> 's \<Rightarrow> (py_error + 'a) \<times> 's" where
  "returnS x s = (Inr x, s)"

definition convert_node ::
  "(pyval \<Rightarrow> nat list) \<Rightarrow> (pyval \<times> pyval) list \<Rightarrow> ResultConverter
     \<Rightarrow> (py_error + pyval) \<times> ResultConverter" where
  "convert_node strf node_dict =
     (case map_of node_dict (S ''__node_id__'') of
        None \<Rightarrow> lift_result (Inl KeyError)
      | Some node_key \<Rightarrow>
          bindS (get_node_id node_key) (\<lambda>nid.
          bindS (lift_result (py_list (dict_get node_dict (S ''__labels__'') (PList [])))) (\<lambda>labels.
          bindS (lift_result (public_items node_dict)) (\<lambda>properties.
          returnS (node_to_structure strf
            \<lparr>node_id = nid, node_labels = labels, node_properties = properties,
             node_element_id = py_str strf node_key\<rparr>)))))"

definition edge_tuple_of :: "(pyval \<times> pyval) list \<Rightarrow> pyval" where
  "edge_tuple_of d =
     (let start_node = dict_get d (S ''__start_node__'') PNone;
          end_node = dict_get d (S ''__end_node__'') PNone;
          edge_key = dict_get d (S ''__edge_key__'') PNone
      in if py_truthy edge_key then PTuple [start_node, end_node, edge_key]
         else PTuple [start_node, end_node])"

definition default_rel_type :: "(pyval \<times> pyval) list \<Rightarrow> py_error + pyval" where
  "default_rel_type d =
     (case dict_get d (S ''__labels__'') PNone of
        PList labels \<Rightarrow> (case labels of [] \<Rightarrow> Inl IndexError | l # ls \<Rightarrow> Inr l)
      | _ \<Rightarrow> Inr (PStr []))"

definition convert_relationship ::
  "(pyval \<Rightarrow> nat list) \<Rightarrow> (pyval \<times> pyval) list \<Rightarrow> ResultConverter
     \<Rightarrow> (py_error + pyval) \<times> ResultConverter" where
  "convert_relationship strf rel_dict =
     (let start_node = dict_get rel_dict (S ''__start_node__'') PNone;
          end_node = dict_get rel_dict (S ''__end_node__'') PNone
      in
      bindS (lift_result (default_rel_type rel_dict)) (\<lambda>dflt.
      let rtype = dict_get rel_dict (S ''__rel_type__'') dflt;
          edge_tuple = edge_tuple_of rel_dict
      in
      bindS (get_edge_id edge_tuple) (\<lambda>edge_id.
      bindS (if py_truthy start_node then get_node_id start_node else returnS 0) (\<lambda>start_id.
      bindS (if py_truthy end_node then get_node_id end_node else returnS 0) (\<lambda>end_id.
      bindS (lift_result (public_items rel_dict)) (\<lambda>properties.
      returnS (relationship_to_structure strf
        \<lparr>rel_id = edge_id, rel_start_node_id = start_id, rel_end_node_id = end_id,
         rel_type = py_str strf rtype, rel_properties = properties,
         rel_element_id = py_str strf edge_tuple,
         rel_start_element_id = py_str strf start_node,
         rel_end_element_id = py_str strf end_node\<rparr>)))))))"

record PathAcc =
  acc_nodes :: "BoltNode list"
  acc_relationships :: "BoltUnboundRelationship list"
  acc_indices :: "int list"
  acc_node_index_map :: "(pyval \<times> nat) list"
  acc_rel_index :: nat

definition PathAcc_init :: PathAcc where
  "PathAcc_init =
     \<lparr>acc_nodes = [], acc_relationships = [], acc_indices = [], acc_node_index_map = [],
      acc_rel_index = 0\<rparr>"

definition is_node_dict :: "pyval \<Rightarrow> bool" where
  "is_node_dict v = (case v of PDict d \<Rightarrow> dict_contains d (S ''__node_id__'') | _ \<Rightarrow> False)"

definition node_key_of :: "pyval \<Rightarrow> pyval" where
  "node_key_of v = (case v of PDict d \<Rightarrow> dict_get d (S ''__node_id__'') PNone | _ \<Rightarrow> PNone)"

definition path_node_step ::
  "(pyval \<Rightarrow> nat list) \<Rightarrow> (pyval \<times> pyval) list \<Rightarrow> PathAcc \<Rightarrow> ResultConverter
     \<Rightarrow> (py_error + PathAcc) \<times> ResultConverter" where
  "path_node_step strf element acc =
     (let node_key = dict_get element (S ''__node_id__'') PNone in
      if \<not> hashable node_key then lift_result (Inl TypeError_Unhashable)
      else
        (case map_of (acc_node_index_map acc) node_key of
           Some ix \<Rightarrow> returnS (acc\<lparr>acc_indices := acc_indices acc @ [int ix]\<rparr>)
         | None \<Rightarrow>
             (let ix = length (acc_nodes acc) in
              bindS (get_node_id node_key) (\<lambda>nid.
              bindS (lift_result (py_list (dict_get element (S ''__labels__'') (PList [])))) (\<lambda>labels.
              bindS (lift_result (public_items element)) (\<lambda>properties.
              returnS
                (acc\<lparr>acc_node_index_map := acc_node_index_map acc @ [(node_key, ix)],
                     acc_nodes := acc_nodes acc @
                       [\<lparr>node_id = nid, node_labels = labels, node_properties = properties,
                         node_element_id = py_str strf node_key\<rparr>],
                     acc_indices := acc_indices acc @ [int ix]\<rparr>)))))))"

definition direction_index :: "pyval list \<Rightarrow> nat \<Rightarrow> pyval \<Rightarrow> nat \<Rightarrow> int" where
  "direction_index path_data i end_node rel_index =
     (if i + 1 < length path_data then
        (let next_element = path_data ! (i + 1) in
         if is_node_dict next_element then
           (if node_key_of next_element = end_node then int rel_index + 1
            else - (int rel_index + 1))
         else int rel_index + 1)
      else int rel_index + 1)"

definition path_rel_step ::
  "(pyval \<Rightarrow> nat list) \<Rightarrow> pyval list \<Rightarrow> nat \<Rightarrow> (pyval \<times> pyval) list \<Rightarrow> PathAcc
     \<Rightarrow> ResultConverter \<Rightarrow> (py_error + PathAcc) \<times> ResultConverter" where
  "path_rel_step strf path_data i element acc =
     (let rtype = dict_get element (S ''__rel_type__'') (PStr []);
          end_node = dict_get element (S ''__end_node__'') PNone;
          edge_tuple = edge_tuple_of element
      in
      bindS (get_edge_id edge_tuple) (\<lambda>edge_id.
      bindS (lift_result (public_items element)) (\<lambda>properties.
      returnS (acc\<lparr>acc_indices := acc_indices acc @
                       [direction_index path_data i end_node (acc_rel_index acc)],
                   acc_relationships := acc_relationships acc @
                       [\<lparr>urel_id = edge_id, urel_type = py_str strf rtype,
                         urel_properties = properties,
                         urel_element_id = py_str strf edge_tuple\<rparr>],
                   acc_rel_index := acc_rel_index acc + 1\<rparr>))))"

definition path_step ::
  "(pyval \<Rightarrow> nat list) \<Rightarrow> pyval list \<Rightarrow> nat \<Rightarrow> pyval \<Rightarrow> PathAcc
     \<Rightarrow> ResultConverter \<Rightarrow> (py_error + PathAcc) \<times> ResultConverter" where
  "path_step strf path_data i element acc =
     (if i mod 2 = 0 then
        (case element of
           PDict d \<Rightarrow>
             if dict_contains d (S ''__node_id__'') then path_node_step strf d acc
             else returnS acc
         | _ \<Rightarrow> returnS acc)
      else
        (case element of
           PDict d \<Rightarrow> path_rel_step strf path_data i d acc
         | _ \<Rightarrow> returnS acc))"

fun path_loop ::
  "(pyval \<Rightarrow> nat list) \<Rightarrow> pyval list \<Rightarrow> nat \<Rightarrow> pyval list \<Rightarrow> PathAcc
     \<Rightarrow> ResultConverter \<Rightarrow> (py_error + PathAcc) \<times> ResultConverter" where
  "path_loop strf path_data i [] acc c = (Inr acc, c)"
| "path_loop strf path_data i (element # rest) acc c =
     (case path_step strf path_data i element acc c of
        (Inl e, c') \<Rightarrow> (Inl e, c')
      | (Inr acc', c') \<Rightarrow> path_loop strf path_data (i + 1) rest acc' c')"

definition convert_path ::
  "(pyval \<Rightarrow> nat list) \<Rightarrow> (pyval \<times> pyval) list \<Rightarrow> ResultConverter
     \<Rightarrow> (py_error + pyval) \<times> ResultConverter" where
  "convert_path strf path_dict =
     bindS (lift_result (py_list (dict_get path_dict (S ''__path__'') (PList [])))) (\<lambda>path_data.
     bindS (path_loop strf path_data 0 path_data PathAcc_init) (\<lambda>acc.
     returnS (path_to_structure strf
       \<lparr>path_nodes = acc_nodes acc, path_relationships = acc_relationships acc,
        path_indices = acc_indices acc\<rparr>)))"

fun convert_value ::
  "(pyval \<Rightarrow> nat list) \<Rightarrow> pyval \<Rightarrow> ResultConverter \<Rightarrow> (py_error + pyval) \<times> ResultConverter"
and convert_values ::
  "(pyval \<Rightarrow> nat list) \<Rightarrow> pyval list \<Rightarrow> ResultConverter
     \<Rightarrow> (py_error + pyval list) \<times> ResultConverter"
and convert_items ::
  "(pyval \<Rightarrow> nat list) \<Rightarrow> (pyval \<times> pyval) list \<Rightarrow> ResultConverter
     \<Rightarrow> (py_error + (pyval \<times> pyval) list) \<times> ResultConverter" where
  "convert_value strf PNone c = (Inr PNone, c)"
| "convert_value strf (PDict d) c =
     (if dict_contains d (S ''__node_id__'') then convert_node strf d c
      else if dict_contains d (S ''__rel_type__'') \<or> dict_contains d (S ''__edge_key__'')
        then convert_relationship strf d c
      else if dict_contains d (S ''__path__'') then convert_path strf d c
      else
        (case convert_items strf d c of
           (Inl e, c') \<Rightarrow> (Inl e, c')
         | (Inr kvs, c') \<Rightarrow> (Inr (PDict kvs), c')))"
| "convert_value strf (PList xs) c =
     (case convert_values strf xs c of
        (Inl e, c') \<Rightarrow> (Inl e, c')
      | (Inr ys, c') \<Rightarrow> (Inr (PList ys), c'))"
| "convert_value strf (PTuple xs) c =
     (case convert_values strf xs c of
        (Inl e, c') \<Rightarrow> (Inl e, c')
      | (Inr ys, c') \<Rightarrow> (Inr (PList ys), c'))"
| "convert_value strf (PBool b) c = (Inr (PBool b), c)"
| "convert_value strf (PInt i) c = (Inr (PInt i), c)"
| "convert_value strf (PFloat f) c = (Inr (PFloat f), c)"
| "convert_value strf (PStr s) c = (Inr (PStr s), c)"
| "convert_value strf (PBytes b) c = (Inr (PBytes b), c)"
| "convert_value strf (PStructure t fs) c = (Inr (PStructure t fs), c)"
| "convert_values strf [] c = (Inr [], c)"
| "convert_values strf (v # vs) c =
     (case convert_value strf v c of
        (Inl e, c') \<Rightarrow> (Inl e, c')
      | (Inr y, c') \<Rightarrow>
          (case convert_values strf vs c' of
             (Inl e, c'') \<Rightarrow> (Inl e, c'')
           | (Inr ys, c'') \<Rightarrow> (Inr (y # ys), c'')))"
| "convert_items strf [] c = (Inr [], c)"
| "convert_items strf ((k, v) # kvs) c =
     (case convert_value strf v c of
        (Inl e, c') \<Rightarrow> (Inl e, c')
      | (Inr y, c') \<Rightarrow>
          (case convert_items strf kvs c' of
             (Inl e, c'') \<Rightarrow> (Inl e, c'')
           | (Inr ys, c'') \<Rightarrow> (Inr ((k, y) # ys), c'')))"

definition py_len :: "pyval \<Rightarrow> py_error + nat" where
  "py_len v =
     (case v of
        PStr s \<Rightarrow> Inr (length s)
      | PBytes b \<Rightarrow> Inr (length b)
      | PList xs \<Rightarrow> Inr (length xs)
      | PTuple xs \<Rightarrow> Inr (length xs)
      | PDict d \<Rightarrow> Inr (length d)
      | _ \<Rightarrow> Inl TypeError_BadOperand)"

definition py_getitem :: "pyval \<Rightarrow> nat \<Rightarrow> py_error + pyval" where
  "py_getitem v i =
     (case v of
        PStr s \<Rightarrow> if i < length s then Inr (PStr [s ! i]) else Inl IndexError
      | PBytes b \<Rightarrow> if i < length b then Inr (PInt (uint (b ! i))) else Inl IndexError
      | PList xs \<Rightarrow> if i < length xs then Inr (xs ! i) else Inl IndexError
      | PTuple xs \<Rightarrow> if i < length xs then Inr (xs ! i) else Inl IndexError
      | PDict d \<Rightarrow> (case map_of d (PInt (int i)) of None \<Rightarrow> Inl KeyError | Some x \<Rightarrow> Inr x)
      | _ \<Rightarrow> Inl TypeError_BadOperand)"

fun convert_row ::
  "(pyval \<Rightarrow> nat list) \<Rightarrow> (pyval \<times> pyval) list \<Rightarrow> nat \<Rightarrow> pyval list \<Rightarrow> ResultConverter
     \<Rightarrow> (py_error + pyval list) \<times> ResultConverter" where
  "convert_row strf result i [] c = (Inr [], c)"
| "convert_row strf result i (field # flds) c =
     (case bindE (case map_of result field of None \<Rightarrow> Inl KeyError | Some col \<Rightarrow> Inr col)
             (\<lambda>col. py_getitem col i) of
        Inl e \<Rightarrow> (Inl e, c)
      | Inr v \<Rightarrow>
          (case convert_value strf v c of
             (Inl e, c') \<Rightarrow> (Inl e, c')
           | (Inr y, c') \<Rightarrow>
               (case convert_row strf result i flds c' of
                  (Inl e, c'') \<Rightarrow> (Inl e, c'')
                | (Inr ys, c'') \<Rightarrow> (Inr (y # ys), c''))))"

fun convert_rows ::
  "(pyval \<Rightarrow> nat list) \<Rightarrow> (pyval \<times> pyval) list \<Rightarrow> pyval list \<Rightarrow> nat list \<Rightarrow> ResultConverter
     \<Rightarrow> (py_error + pyval list list) \<times> ResultConverter" where
  "convert_rows strf result flds [] c = (Inr [], c)"
| "convert_rows strf result flds (i # is) c =
     (case convert_row strf result i flds c of
        (Inl e, c') \<Rightarrow> (Inl e, c')
      | (Inr row, c') \<Rightarrow>
          (case convert_rows strf result flds is c' of
             (Inl e, c'') \<Rightarrow> (Inl e, c'')
           | (Inr rows, c'') \<Rightarrow> (Inr (row # rows), c'')))"

definition convert_result ::
  "(pyval \<Rightarrow> nat list) \<Rightarrow> pyval \<Rightarrow> ResultConverter \<Rightarrow> (py_error + QueryResult) \<times> ResultConverter"
  where
  "convert_result strf result c =
     (if \<not> py_truthy result then (Inr \<lparr>qr_fields = [], qr_records = [], cursor = 0\<rparr>, c)
      else
        (case result of
           PDict d \<Rightarrow>
             (let flds = map fst d;
                  first_col = snd (hd d)
              in
              case (if py_truthy first_col then py_len first_col else Inr 0) of
                Inl e \<Rightarrow> (Inl e, c)
              | Inr num_rows \<Rightarrow>
                  (case convert_rows strf d flds [0..<num_rows] c of
                     (Inl e, c') \<Rightarrow> (Inl e, c')
                   | (Inr records, c') \<Rightarrow>
                       (Inr \<lparr>qr_fields = flds, qr_records = records, cursor = 0\<rparr>, c')))
         | _ \<Rightarrow> (Inl AttributeError, c)))"

section \<open>Connection handler (connection.py)\<close>

text \<open>
  A \<open>BoltConnection\<close> record holds the attributes of the object together with the two
  ends of the socket: \<open>conn_reader\<close> is the byte sequence the client sends before it
  closes its end, \<open>conn_written\<close> the bytes written so far, \<open>conn_closed\<close> whether
  \<open>_close\<close> has run.  The heap of graph objects is carried in \<open>conn_heap\<close>.
  \<open>conn_id\<close> is the decimal text of \<open>id(self)\<close>.

  What the server calls but does not define is collected in an environment:
  \<open>env_str\<close> is \<open>str\<close> on values other than \<open>str\<close>, \<open>env_exc_str\<close> is \<open>str(e)\<close> for an
  exception, \<open>env_run g query params\<close> is \<open>NXCypher(g).run(query, params=params)\<close>,
  which returns a result or raises and leaves the graph in a new state, and
  \<open>env_clear\<close>, \<open>env_update\<close> are the graph's \<open>clear\<close> and \<open>update\<close>.

  A coroutine of the connection is an \<open>action\<close>: from the connection to \<open>None\<close> when
  it does not return, and otherwise to its result or exception and the connection
  afterwards.  The only loop that may not return is the chunk writer's.
  \<open>try_except m handler\<close> is \<open>try: m except Exception as e: handler e\<close>.

  \<open>readexactly n\<close> raises \<open>IncompleteReadError\<close> when the client closes before \<open>n\<close>
  bytes have come.  The loop of \<open>handle\<close> that reads from the socket is the parameter
  \<open>serve\<close>; its inner loop over the decoded messages is \<open>dispatch_all\<close>.

  Two corner cases are approximated.  \<open>query[:100]\<close> raises for every query that is not a
  \<open>str\<close>, \<open>bytes\<close>, \<open>list\<close> or \<open>tuple\<close>; the model raises \<open>TypeError\<close> in all these cases
  (for a \<open>dict\<close> newer Python versions raise \<open>KeyError\<close>), and both are handled alike
  by the caller.  The count \<open>n\<close> of PULL and DISCARD is an \<open>int\<close> or a \<open>bool\<close>; for a
  \<open>float\<close>, which Python compares and adds, the model raises \<open>TypeError\<close>.
\<close>

definition BOLT_MAGIC :: "byte list" where
  "BOLT_MAGIC = [0x60, 0x60, 0xB0, 0x17]"

definition SUPPORTED_VERSIONS :: "(nat \<times> nat) list" where
  "SUPPORTED_VERSIONS = [(5, 4), (5, 0), (4, 4), (4, 3)]"

record 'g Env =
  env_str :: "pyval \<Rightarrow> nat list"
  env_exc_str :: "py_error \<Rightarrow> nat list"
  env_run :: "'g \<Rightarrow> pyval \<Rightarrow> pyval \<Rightarrow> (py_error + pyval) \<times> 'g"
  env_clear :: "'g \<Rightarrow> 'g"
  env_update :: "'g \<Rightarrow> 'g \<Rightarrow> 'g"

record 'g BoltConnection =
  conn_reader :: "byte list"
  conn_written :: "byte list"
  conn_closed :: bool
  conn_heap :: "'g Heap"
  conn_graph :: nat
  conn_server_name :: "nat list"
  conn_state :: StateMachine
  conn_session :: BoltSession
  conn_converter :: ResultConverter
  conn_chunk_reader :: ChunkReader
  conn_chunk_writer :: ChunkWriter
  conn_negotiated_version :: "(nat \<times> nat) option"
  conn_client_info :: pyval
  conn_id :: "nat list"

definition BoltConnection_init ::
  "byte list \<Rightarrow> 'g Heap \<Rightarrow> nat \<Rightarrow> nat list \<Rightarrow> nat list \<Rightarrow> 'g BoltConnection" where
  "BoltConnection_init input h g server_name ident =
     \<lparr>conn_reader = input, conn_written = [], conn_closed = False, conn_heap = h,
      conn_graph = g, conn_server_name = server_name, conn_state = StateMachine_init,
      conn_session = BoltSession_init g, conn_converter = ResultConverter_init,
      conn_chunk_reader = ChunkReader_init, conn_chunk_writer = ChunkWriter_init MAX_CHUNK_SIZE,
      conn_negotiated_version = None, conn_client_info = PDict [], conn_id = ident\<rparr>"

type_synonym ('g, 'a) action =
  "'g BoltConnection \<Rightarrow> ((py_error + 'a) \<times> 'g BoltConnection) option"

definition returnC :: "'a \<Rightarrow> ('g, 'a) action" where
  "returnC x c = Some (Inr x, c)"

definition raiseC :: "py_error \<Rightarrow> ('g, 'a) action" where
  "raiseC e c = Some (Inl e, c)"

definition bindC :: "('g, 'a) action \<Rightarrow> ('a \<Rightarrow> ('g, 'b) action) \<Rightarrow> ('g, 'b) action" where
  "bindC m f c =
     (case m c of
        None \<Rightarrow> None
      | Some (Inl e, c') \<Rightarrow> Some (Inl e, c')
      | Some (Inr x, c') \<Rightarrow> f x c')"

definition thenC :: "('g, unit) action \<Rightarrow> ('g, 'b) action \<Rightarrow> ('g, 'b) action" where
  "thenC m k = bindC m (\<lambda>u. k)"

definition try_except ::
  "('g, 'a) action \<Rightarrow> (py_error \<Rightarrow> ('g, 'a) action) \<Rightarrow> ('g, 'a) action" where
  "try_except m handler c =
     (case m c of
        None \<Rightarrow> None
      | Some (Inl e, c') \<Rightarrow> handler e c'
      | Some (Inr x, c') \<Rightarrow> Some (Inr x, c'))"

definition liftE :: "py_error + 'a \<Rightarrow> ('g, 'a) action" where
  "liftE r c = Some (r, c)"

definition modifyC :: "('g BoltConnection \<Rightarrow> 'g BoltConnection) \<Rightarrow> ('g, unit) action" where
  "modifyC f c = Some (Inr (), f c)"

definition state_transition_to :: "ConnectionState \<Rightarrow> ('g, unit) action" where
  "state_transition_to new_state c =
     (case transition_to (conn_state c) new_state of
        (r, sm) \<Rightarrow> Some (r, c\<lparr>conn_state := sm\<rparr>))"

definition send_message :: "'g Env \<Rightarrow> pyval \<Rightarrow> ('g, unit) action" where
  "send_message env message c =
     (case encode (env_str env) message of
        Inl e \<Rightarrow> Some (Inl e, c)
      | Inr encoded \<Rightarrow>
          (case writer_write (conn_chunk_writer c) encoded of
             None \<Rightarrow> None
           | Some (Inl e) \<Rightarrow> Some (Inl e, c)
           | Some (Inr chunked) \<Rightarrow> Some (Inr (), c\<lparr>conn_written := conn_written c @ chunked\<rparr>)))"

definition send_success :: "'g Env \<Rightarrow> pyval \<Rightarrow> ('g, unit) action" where
  "send_success env metadata = send_message env (create_success metadata)"

definition send_failure :: "'g Env \<Rightarrow> string \<Rightarrow> pyval \<Rightarrow> ('g, unit) action" where
  "send_failure env code message = send_message env (create_failure (S code) message)"

definition send_record :: "'g Env \<Rightarrow> pyval list \<Rightarrow> ('g, unit) action" where
  "send_record env flds = send_message env (create_record (PList flds))"

definition send_ignored :: "'g Env \<Rightarrow> ('g, unit) action" where
  "send_ignored env = send_message env create_ignored"

definition close :: "'g BoltConnection \<Rightarrow> 'g BoltConnection" where
  "close c = c\<lparr>conn_closed := True\<rparr>"

subsection \<open>Handshake\<close>

definition readexactly :: "nat \<Rightarrow> ('g, byte list) action" where
  "readexactly n c =
     (if length (conn_reader c) < n then Some (Inl IncompleteReadError, c\<lparr>conn_reader := []\<rparr>)
      else Some (Inr (take n (conn_reader c)), c\<lparr>conn_reader := drop n (conn_reader c)\<rparr>))"

definition writer_write_raw :: "byte list \<Rightarrow> ('g, unit) action" where
  "writer_write_raw bs c = Some (Inr (), c\<lparr>conn_written := conn_written c @ bs\<rparr>)"

definition parse_versions :: "byte list \<Rightarrow> (nat \<times> nat \<times> nat) list" where
  "parse_versions version_data =
     concat (map (\<lambda>i.
        (let v = unpack_unsigned (take 4 (drop (i * 4) version_data));
             major = v AND 0xFF;
             minor = drop_bit 8 v AND 0xFF;
             version_range = drop_bit 16 v AND 0xFF
         in if major > 0 then [(major, minor, version_range)] else [])) [0..<4])"

fun match_supported :: "nat \<times> nat \<times> nat \<Rightarrow> (nat \<times> nat) list \<Rightarrow> (nat \<times> nat) option" where
  "match_supported p [] = None"
| "match_supported (major, minor, version_range) ((sup_major, sup_minor) # sups) =
     (if sup_major = major then
        (if version_range > 0 then
           (if int minor - int version_range \<le> int sup_minor \<and> sup_minor \<le> minor
            then Some (sup_major, sup_minor)
            else match_supported (major, minor, version_range) sups)
         else
           (if sup_minor = minor then Some (sup_major, sup_minor)
            else match_supported (major, minor, version_range) sups))
      else match_supported (major, minor, version_range) sups)"

fun select_version :: "(nat \<times> nat \<times> nat) list \<Rightarrow> (nat \<times> nat) option" where
  "select_version [] = None"
| "select_version (p # ps) =
     (case match_supported p SUPPORTED_VERSIONS of
        Some s \<Rightarrow> Some s
      | None \<Rightarrow> select_version ps)"

definition handshake_body :: "('g, bool) action" where
  "handshake_body =
     bindC (readexactly 4) (\<lambda>magic.
       if magic \<noteq> BOLT_MAGIC then returnC False
       else
         bindC (readexactly 16) (\<lambda>version_data.
           (case select_version (parse_versions version_data) of
              None \<Rightarrow> thenC (writer_write_raw [0x00, 0x00, 0x00, 0x00]) (returnC False)
            | Some selected \<Rightarrow>
                thenC (modifyC (\<lambda>c. c\<lparr>conn_negotiated_version := Some selected\<rparr>))
               (bindC (liftE (pack_unsigned 4 (int (push_bit 8 (snd selected) OR fst selected)))) (\<lambda>response.
                thenC (writer_write_raw response)
               (thenC (state_transition_to AUTHENTICATION)
                      (returnC True)))))))"

definition handshake :: "('g, bool) action" where
  "handshake = try_except handshake_body (\<lambda>e. returnC False)"

definition handle :: "('g, unit) action \<Rightarrow> 'g BoltConnection \<Rightarrow> 'g BoltConnection option" where
  "handle serve c =
     (case try_except
             (bindC handshake (\<lambda>ok. if \<not> ok then returnC () else serve))
             (\<lambda>e. returnC ()) c of
        None \<Rightarrow> None
      | Some (r, c') \<Rightarrow> Some (close c'))"

subsection \<open>Message handlers\<close>

definition field_or :: "pyval list \<Rightarrow> nat \<Rightarrow> pyval \<Rightarrow> pyval" where
  "field_or flds i dflt = (if i < length flds then flds ! i else dflt)"

definition py_get :: "pyval \<Rightarrow> pyval \<Rightarrow> pyval \<Rightarrow> py_error + pyval" where
  "py_get v k dflt = (case v of PDict d \<Rightarrow> Inr (dict_get d k dflt) | _ \<Rightarrow> Inl AttributeError)"

definition py_count :: "pyval \<Rightarrow> py_error + int" where
  "py_count v =
     (case v of
        PInt i \<Rightarrow> Inr i
      | PBool b \<Rightarrow> Inr (if b then 1 else 0)
      | _ \<Rightarrow> Inl TypeError_BadOperand)"

definition sliceable :: "pyval \<Rightarrow> bool" where
  "sliceable v =
     (case v of PStr s \<Rightarrow> True | PBytes b \<Rightarrow> True | PList xs \<Rightarrow> True | PTuple xs \<Rightarrow> True
      | _ \<Rightarrow> False)"

definition hex_digit :: "nat \<Rightarrow> nat" where
  "hex_digit d = str_lit ''0123456789ABCDEF'' ! d"

fun hex_digits :: "nat \<Rightarrow> nat list" where
  "hex_digits n = (if n < 16 then [hex_digit n] else hex_digits (n div 16) @ [hex_digit (n mod 16)])"

declare hex_digits.simps [simp del]

definition format_02X :: "int \<Rightarrow> nat list" where
  "format_02X tag =
     (if tag < 0 then str_lit ''-'' @ hex_digits (nat (- tag))
      else if tag < 16 then str_lit ''0'' @ hex_digits (nat tag)
      else hex_digits (nat tag))"

definition state_is :: "'g BoltConnection \<Rightarrow> ConnectionState \<Rightarrow> bool" where
  "state_is c st \<longleftrightarrow> sm_state (conn_state c) = st"

definition major_at_least :: "'g BoltConnection \<Rightarrow> nat \<Rightarrow> bool" where
  "major_at_least c k =
     (case conn_negotiated_version c of None \<Rightarrow> False | Some v \<Rightarrow> fst v \<ge> k)"

definition handle_hello :: "'g Env \<Rightarrow> pyval list \<Rightarrow> ('g, unit) action" where
  "handle_hello env flds c =
     (if \<not> state_is c AUTHENTICATION then send_ignored env c
      else
        (let extra = field_or flds 0 (PDict []) in
         thenC (modifyC (\<lambda>c. c\<lparr>conn_client_info := extra\<rparr>))
        (bindC (liftE (py_get extra (S ''user_agent'') (S ''unknown''))) (\<lambda>user_agent.
         (\<lambda>c.
            (let metadata =
                   [(S ''server'', PStr (conn_server_name c)),
                    (S ''connection_id'', PStr (str_lit ''bolt-'' @ conn_id c))]
                   @ (if major_at_least c 5 then [(S ''hints'', PDict [])] else [])
             in thenC (send_success env (PDict metadata)) (state_transition_to READY) c)))) c))"

definition handle_goodbye :: "'g Env \<Rightarrow> pyval list \<Rightarrow> ('g, unit) action" where
  "handle_goodbye env flds c = Some (Inr (), c\<lparr>conn_state := mark_defunct (conn_state c)\<rparr>)"

definition session_begin :: "('g, unit) action" where
  "session_begin c =
     (case begin_transaction (conn_session c) (conn_heap c) of
        (r, s, h) \<Rightarrow> Some (r, c\<lparr>conn_session := s, conn_heap := h\<rparr>))"

definition session_commit :: "'g Env \<Rightarrow> ('g, unit) action" where
  "session_commit env c =
     (case commit_transaction (env_clear env) (env_update env) (conn_session c) (conn_heap c) of
        (r, s, h) \<Rightarrow> Some (r, c\<lparr>conn_session := s, conn_heap := h\<rparr>))"

definition session_rollback :: "('g, unit) action" where
  "session_rollback c =
     (case rollback_transaction (conn_session c) (conn_heap c) of
        (r, s, h) \<Rightarrow> Some (r, c\<lparr>conn_session := s, conn_heap := h\<rparr>))"

definition session_clear_result :: "('g, unit) action" where
  "session_clear_result = modifyC (\<lambda>c. c\<lparr>conn_session := clear_result (conn_session c)\<rparr>)"

definition handle_reset :: "'g Env \<Rightarrow> pyval list \<Rightarrow> ('g, unit) action" where
  "handle_reset env flds =
     thenC session_clear_result
    (thenC (\<lambda>c. if in_transaction (conn_session c) then session_rollback c else returnC () c)
    (thenC (modifyC (\<lambda>c. c\<lparr>conn_state := sm_reset (conn_state c)\<rparr>))
           (send_success env (PDict []))))"

definition run_query :: "'g Env \<Rightarrow> pyval \<Rightarrow> pyval \<Rightarrow> ('g, pyval) action" where
  "run_query env query params c =
     (let w = get_working_graph (conn_session c) in
      case env_run env (cells (conn_heap c) w) query params of
        (r, g') \<Rightarrow> Some (r, c\<lparr>conn_heap := mutate (conn_heap c) w (\<lambda>g. g')\<rparr>))"

definition converter_convert_result :: "'g Env \<Rightarrow> pyval \<Rightarrow> ('g, QueryResult) action" where
  "converter_convert_result env result c =
     (case convert_result (env_str env) result (conn_converter c) of
        (r, cv) \<Rightarrow> Some (r, c\<lparr>conn_converter := cv\<rparr>))"

definition session_set_result :: "QueryResult \<Rightarrow> ('g, int) action" where
  "session_set_result qr c =
     (case set_result qr (conn_session c) of
        (qid, s) \<Rightarrow> Some (Inr qid, c\<lparr>conn_session := s\<rparr>))"

definition transition_by_tx :: "ConnectionState \<Rightarrow> ConnectionState \<Rightarrow> ('g, unit) action" where
  "transition_by_tx in_tx no_tx c =
     (if in_transaction (conn_session c) then state_transition_to in_tx c
      else state_transition_to no_tx c)"

definition handle_run :: "'g Env \<Rightarrow> pyval list \<Rightarrow> ('g, unit) action" where
  "handle_run env flds c =
     (if \<not> (state_is c READY \<or> state_is c TX_READY) then
        (if state_is c FAILED then send_ignored env c
         else send_failure env ''Neo.ClientError.Request.Invalid''
                (S ''Cannot run query in current state'') c)
      else
        (let query = field_or flds 0 (PStr []);
             params = field_or flds 1 (PDict []);
             extra = field_or flds 2 (PDict [])
         in
         if \<not> sliceable query then raiseC TypeError_BadOperand c
         else
           try_except
             (bindC (run_query env query params) (\<lambda>result.
              bindC (converter_convert_result env result) (\<lambda>query_result.
              bindC (session_set_result query_result) (\<lambda>qid.
              thenC (transition_by_tx TX_STREAMING STREAMING)
                (\<lambda>c. send_success env
                   (PDict ([(S ''fields'', PList (qr_fields query_result)), (S ''t_first'', PInt 0)]
                      @ (if major_at_least c 4 then [(S ''qid'', PInt qid)] else []))) c)))))
             (\<lambda>e. thenC (send_failure env ''Neo.ClientError.Statement.SyntaxError''
                            (PStr (env_exc_str env e)))
                         (state_transition_to FAILED)) c))"

fun send_records :: "'g Env \<Rightarrow> pyval list list \<Rightarrow> ('g, unit) action" where
  "send_records env [] = returnC ()"
| "send_records env (r # rs) = thenC (send_record env r) (send_records env rs)"

definition handle_pull :: "'g Env \<Rightarrow> pyval list \<Rightarrow> ('g, unit) action" where
  "handle_pull env flds c =
     (if \<not> (state_is c STREAMING \<or> state_is c TX_STREAMING) then
        (if state_is c FAILED then send_ignored env c
         else send_failure env ''Neo.ClientError.Request.Invalid'' (S ''No results to pull'') c)
      else
        (let extra = field_or flds 0 (PDict []) in
         bindC (liftE (py_get extra (S ''n'') (PInt (- 1)))) (\<lambda>n.
         bindC (liftE (py_get extra (S ''qid'') (PInt (- 1)))) (\<lambda>qid.
         (\<lambda>c.
            (case current_result (conn_session c) of
               None \<Rightarrow>
                 send_failure env ''Neo.ClientError.Request.Invalid'' (S ''No active result'') c
             | Some qr \<Rightarrow>
                 bindC (liftE (py_count n)) (\<lambda>k.
                   (case pull k qr of
                      (records, qr') \<Rightarrow>
                        thenC (modifyC (\<lambda>c. c\<lparr>conn_session :=
                                 (conn_session c)\<lparr>current_result := Some qr'\<rparr>\<rparr>))
                       (thenC (send_records env records)
                          (if \<not> has_more qr' then
                             thenC (transition_by_tx TX_READY READY)
                            (thenC session_clear_result
                               (send_success env
                                  (PDict [(S ''has_more'', PBool False), (S ''t_last'', PInt 0),
                                          (S ''type'', S ''r''), (S ''stats'', PDict [])])))
                           else
                             send_success env
                               (PDict [(S ''has_more'', PBool True), (S ''t_last'', PInt 0)]))))) c)))) c))"

definition handle_discard :: "'g Env \<Rightarrow> pyval list \<Rightarrow> ('g, unit) action" where
  "handle_discard env flds c =
     (if \<not> (state_is c STREAMING \<or> state_is c TX_STREAMING) then
        (if state_is c FAILED then send_ignored env c
         else send_failure env ''Neo.ClientError.Request.Invalid'' (S ''No results to discard'') c)
      else
        (let extra = field_or flds 0 (PDict []) in
         bindC (liftE (py_get extra (S ''n'') (PInt (- 1)))) (\<lambda>n.
         thenC
           (\<lambda>c. case current_result (conn_session c) of
                   None \<Rightarrow> returnC () c
                 | Some qr \<Rightarrow>
                     bindC (liftE (py_count n)) (\<lambda>k.
                       modifyC (\<lambda>c. c\<lparr>conn_session :=
                         (conn_session c)\<lparr>current_result := Some (snd (discard k qr))\<rparr>\<rparr>)) c)
           (\<lambda>c. (let more = (case current_result (conn_session c) of
                                None \<Rightarrow> False | Some qr \<Rightarrow> has_more qr)
                  in if \<not> more then
                       thenC (transition_by_tx TX_READY READY)
                      (thenC session_clear_result
                         (send_success env (PDict [(S ''has_more'', PBool False)]))) c
                     else send_success env (PDict [(S ''has_more'', PBool True)]) c))) c))"

definition handle_begin :: "'g Env \<Rightarrow> pyval list \<Rightarrow> ('g, unit) action" where
  "handle_begin env flds c =
     (if \<not> state_is c READY then
        (if state_is c FAILED then send_ignored env c
         else send_failure env ''Neo.ClientError.Request.Invalid''
                (S ''Cannot begin transaction in current state'') c)
      else
        try_except
          (thenC session_begin
          (thenC (state_transition_to TX_READY)
                 (send_success env (PDict []))))
          (\<lambda>e. send_failure env ''Neo.ClientError.Transaction.TransactionStartFailed''
                  (PStr (env_exc_str env e))) c)"

definition handle_commit :: "'g Env \<Rightarrow> pyval list \<Rightarrow> ('g, unit) action" where
  "handle_commit env flds c =
     (if \<not> state_is c TX_READY then
        (if state_is c FAILED then send_ignored env c
         else send_failure env ''Neo.ClientError.Request.Invalid''
                (S ''No transaction to commit'') c)
      else
        try_except
          (thenC (session_commit env)
          (thenC (state_transition_to READY)
          (thenC (modifyC (\<lambda>c. c\<lparr>conn_converter := ResultConverter_init\<rparr>))
                 (send_success env (PDict [])))))
          (\<lambda>e. send_failure env ''Neo.ClientError.Transaction.TransactionCommitFailed''
                  (PStr (env_exc_str env e))) c)"

definition handle_rollback :: "'g Env \<Rightarrow> pyval list \<Rightarrow> ('g, unit) action" where
  "handle_rollback env flds c =
     (if \<not> state_is c TX_READY then
        (if state_is c FAILED then send_ignored env c
         else send_failure env ''Neo.ClientError.Request.Invalid''
                (S ''No transaction to rollback'') c)
      else
        try_except
          (thenC session_rollback
          (thenC (state_transition_to READY)
                 (send_success env (PDict []))))
          (\<lambda>e. send_failure env ''Neo.ClientError.Transaction.TransactionRollbackFailed''
                  (PStr (env_exc_str env e))) c)"

definition handle_route :: "'g Env \<Rightarrow> pyval list \<Rightarrow> ('g, unit) action" where
  "handle_route env flds =
     (let extra = field_or flds 0 (PDict []);
          bookmarks = field_or flds 1 (PList []);
          db = field_or flds 2 PNone;
          server = (\<lambda>role. PDict [(S ''addresses'', PList [S ''localhost:7687'']),
                                   (S ''role'', S role)]);
          routing_table =
            PDict [(S ''rt'',
              PDict [(S ''servers'', PList [server ''WRITE'', server ''READ'', server ''ROUTE'']),
                     (S ''ttl'', PInt 300),
                     (S ''db'', if py_truthy db then db else S ''neo4j'')])]
      in send_success env routing_table)"

definition handle_logoff :: "'g Env \<Rightarrow> pyval list \<Rightarrow> ('g, unit) action" where
  "handle_logoff env flds = send_success env (PDict [])"

definition handle_telemetry :: "'g Env \<Rightarrow> pyval list \<Rightarrow> ('g, unit) action" where
  "handle_telemetry env flds = send_success env (PDict [])"

definition dispatch_message :: "'g Env \<Rightarrow> int \<Rightarrow> pyval list \<Rightarrow> ('g, unit) action" where
  "dispatch_message env tag flds =
     (if tag = MSG_HELLO then handle_hello env flds
      else if tag = MSG_LOGON then handle_hello env flds
      else if tag = MSG_GOODBYE then handle_goodbye env flds
      else if tag = MSG_RESET then handle_reset env flds
      else if tag = MSG_RUN then handle_run env flds
      else if tag = MSG_PULL then handle_pull env flds
      else if tag = MSG_DISCARD then handle_discard env flds
      else if tag = MSG_BEGIN then handle_begin env flds
      else if tag = MSG_COMMIT then handle_commit env flds
      else if tag = MSG_ROLLBACK then handle_rollback env flds
      else if tag = MSG_ROUTE then handle_route env flds
      else if tag = MSG_LOGOFF then handle_logoff env flds
      else if tag = MSG_TELEMETRY then handle_telemetry env flds
      else send_failure env ''Neo.ClientError.Request.Invalid''
             (PStr (str_lit ''Unknown message type: 0x'' @ format_02X tag)))"

fun dispatch_all :: "'g Env \<Rightarrow> (int \<times> pyval list) list \<Rightarrow> ('g, unit) action" where
  "dispatch_all env [] = returnC ()"
| "dispatch_all env ((tag, flds) # messages) =
     thenC (dispatch_message env tag flds) (dispatch_all env messages)"

section \<open>Notions used to state the properties\<close>

subsection \<open>Requests for an ID\<close>

text \<open>
  Every conversion obtains its IDs from \<open>_get_node_id\<close> and \<open>_get_edge_id\<close>.  A request
  names the table and the key; \<open>serve_all\<close> serves a sequence of requests one after
  the other, going on after a request that raised, and returns the answers in order.
  \<open>numbered m n\<close> says that the table \<open>m\<close> holds distinct keys with the IDs
  \<open>0, 1, ...\<close> in the order of insertion and that \<open>n\<close> is the next free ID.
\<close>

datatype id_request = NodeKey pyval | EdgeKey pyval

fun request_key :: "id_request \<Rightarrow> pyval" where
  "request_key (NodeKey k) = k"
| "request_key (EdgeKey k) = k"


fun serve :: "id_request \<Rightarrow> ResultConverter \<Rightarrow> (py_error + int) \<times> ResultConverter" where
  "serve (NodeKey k) c = get_node_id k c"
| "serve (EdgeKey k) c = get_edge_id k c"



fun next_id :: "ResultConverter \<Rightarrow> id_request \<Rightarrow> int" where
  "next_id c (NodeKey k) = next_node_id c"
| "next_id c (EdgeKey k) = next_edge_id c"



subsection \<open>The version proposals, in the words of the specification\<close>

text \<open>
  The block of 16 bytes has four slots of four bytes: reserved, range, minor, major.
  A supported version is compatible with a proposal when the majors are equal and
  either the range is 0 and the minors are equal, or the range is positive and the
  supported minor lies between minor - range and minor.  \<open>first_compatible\<close> is the
  first compatible pair in the order of the proposals and, for one proposal, of the
  server's list.
\<close>

definition slots :: "byte list \<Rightarrow> byte list list" where
  "slots block = map (\<lambda>i. take 4 (drop (i * 4) block)) [0..<4]"

definition slot_proposal :: "byte list \<Rightarrow> nat \<times> nat \<times> nat" where
  "slot_proposal s = (unat (s ! 3), unat (s ! 2), unat (s ! 1))"

fun compatible :: "nat \<times> nat \<times> nat \<Rightarrow> nat \<times> nat \<Rightarrow> bool" where
  "compatible (major, minor, version_range) (sup_major, sup_minor) \<longleftrightarrow>
     sup_major = major
     \<and> ((version_range = 0 \<and> sup_minor = minor)
        \<or> (version_range > 0 \<and> int minor - int version_range \<le> int sup_minor
              \<and> sup_minor \<le> minor))"

definition first_compatible :: "(nat \<times> nat \<times> nat) list \<Rightarrow> (nat \<times> nat) option" where
  "first_compatible ps =
     map_option snd (List.find (\<lambda>(p, s). compatible p s) (List.product ps SUPPORTED_VERSIONS))"

subsection \<open>Positions in a path\<close>











subsection \<open>Example data\<close>

text \<open>
  An engine for the examples: every character of the query names a node that the
  result returns in column \<open>n\<close>; the empty query, or one that is not a string, raises.
  \<open>ready_connection\<close> is a connection after the handshake and HELLO.  \<open>reply_tags\<close>
  reads the bytes that the server has written as a client does, with a chunk reader
  and the decoder, and returns the tags of the messages.
\<close>

definition example_env :: "unit Env" where
  "example_env =
     \<lparr>env_str = (\<lambda>v. case v of PStr s \<Rightarrow> s | _ \<Rightarrow> []),
      env_exc_str = (\<lambda>e. str_lit ''error''),
      env_run = (\<lambda>g query params.
         (case query of
            PStr (x # xs) \<Rightarrow>
              (Inr (PDict [(S ''n'',
                 PList (map (\<lambda>y. PDict [(S ''__node_id__'', PStr [y])]) (x # xs)))]), g)
          | _ \<Rightarrow> (Inl (EngineError (str_lit ''error'')), g))),
      env_clear = (\<lambda>g. g), env_update = (\<lambda>g h. h)\<rparr>"

definition example_heap :: "unit Heap" where
  "example_heap = \<lparr>cells = (\<lambda>a. ()), next_ref = 1\<rparr>"

definition new_connection :: "byte list \<Rightarrow> unit BoltConnection" where
  "new_connection input =
     BoltConnection_init input example_heap 0 (str_lit ''nxcypher/1.0.0'') (str_lit ''1'')"

definition ready_connection :: "unit BoltConnection" where
  "ready_connection =
     (new_connection [])
       \<lparr>conn_state := \<lparr>sm_state = READY\<rparr>, conn_negotiated_version := Some (5, 4)\<rparr>"



definition state_after :: "(int \<times> pyval list) list \<Rightarrow> ConnectionState option" where
  "state_after messages =
     map_option (\<lambda>(r, c). sm_state (conn_state c))
       (dispatch_all example_env messages ready_connection)"

definition message_tag :: "byte list \<Rightarrow> int option" where
  "message_tag m = (case decode m of Inr (PStructure t fs) \<Rightarrow> Some t | _ \<Rightarrow> None)"

definition reply_tags :: "(int \<times> pyval list) list \<Rightarrow> int option list option" where
  "reply_tags messages =
     map_option (\<lambda>(r, c). map message_tag (fst (feed ChunkReader_init (conn_written c))))
       (dispatch_all example_env messages ready_connection)"





section \<open>Properties of the state machine\<close>

text \<open>
  C3.  From state \<open>s\<close>, \<open>transition_to t\<close> succeeds and leaves the machine in \<open>t\<close>
  exactly when \<open>t\<close> is in the table's entry for \<open>s\<close>; for every other pair it raises the
  invalid-transition error and leaves the state as it was.  The entry of \<open>DEFUNCT\<close> is
  empty, so every transition from \<open>DEFUNCT\<close> fails.
\<close>

theorem transition_to_iff_valid:
  "(fst (transition_to sm t) = Inr () \<longleftrightarrow> t \<in> VALID_TRANSITIONS (sm_state sm))
   \<and> (t \<in> VALID_TRANSITIONS (sm_state sm) \<longrightarrow>
        transition_to sm t = (Inr (), sm\<lparr>sm_state := t\<rparr>))
   \<and> (t \<notin> VALID_TRANSITIONS (sm_state sm) \<longrightarrow>
        transition_to sm t = (Inl (ValueError_InvalidTransition (sm_state sm) t), sm))
   \<and> (sm_state sm = DEFUNCT \<longrightarrow>
        transition_to sm t = (Inl (ValueError_InvalidTransition DEFUNCT t), sm))"
  by (simp add: transition_to_def can_transition_to_def)

theorem transition_to_iff_valid_witness:
  "transition_to \<lparr>sm_state = READY\<rparr> STREAMING = (Inr (), \<lparr>sm_state = STREAMING\<rparr>)
   \<and> transition_to \<lparr>sm_state = READY\<rparr> NEGOTIATION
       = (Inl (ValueError_InvalidTransition READY NEGOTIATION), \<lparr>sm_state = READY\<rparr>)
   \<and> transition_to \<lparr>sm_state = DEFUNCT\<rparr> READY
       = (Inl (ValueError_InvalidTransition DEFUNCT READY), \<lparr>sm_state = DEFUNCT\<rparr>)"
  using transition_to_iff_valid [of "\<lparr>sm_state = READY\<rparr>" STREAMING]
    transition_to_iff_valid [of "\<lparr>sm_state = READY\<rparr>" NEGOTIATION]
    transition_to_iff_valid [of "\<lparr>sm_state = DEFUNCT\<rparr>" READY]
  by simp

section \<open>Properties of the PackStream codec\<close>

lemmas marker_defs =
  TINY_STRING_def TINY_LIST_def TINY_MAP_def TINY_STRUCT_def NULL_def FLOAT_64_def
  FALSE_def TRUE_def INT_8_def INT_16_def INT_32_def INT_64_def BYTES_8_def BYTES_16_def
  BYTES_32_def STRING_8_def STRING_16_def STRING_32_def LIST_8_def LIST_16_def LIST_32_def
  MAP_8_def MAP_16_def MAP_32_def STRUCT_8_def STRUCT_16_def

lemma word_of_int_and_ff: "(word_of_int (v AND 0xFF) :: byte) = word_of_int v"
proof -
  have "v AND 0xFF = take_bit 8 v"
    by (simp add: take_bit_eq_mask mask_eq_exp_minus_1)
  then show ?thesis
    by (simp add: word_of_int_eq_iff)
qed

lemma length_be_bytes [simp]: "length (be_bytes n v) = n"
  by (induction n arbitrary: v) auto

lemma be_bytes_numeral:
  "be_bytes (numeral k) v = be_bytes (pred_numeral k) (v div 256) @ [of_nat (v mod 256)]"
  by (simp only: numeral_eq_Suc[of k] be_bytes.simps)

lemma be_bytes_one: "be_bytes 1 v = [of_nat (v mod 256)]"
  by (simp only: One_nat_def be_bytes.simps append_Nil)

subsection \<open>Integer lanes\<close>

lemma narrowest_lane_holds:
  "- (2 ^ 63) \<le> v \<Longrightarrow> v < 2 ^ 63 \<Longrightarrow> lane_holds (narrowest_lane v) v"
  by (simp add: narrowest_lane_def)

lemma narrowest_lane_least:
  "lane_holds l v \<Longrightarrow> lane_length (narrowest_lane v) \<le> lane_length l"
  by (cases l) (auto simp: narrowest_lane_def)

lemma encode_int_lane_form:
  "- (2 ^ 63) \<le> v \<Longrightarrow> v < 2 ^ 63 \<Longrightarrow> encode_int v = Inr (lane_form (narrowest_lane v) v)"
  by (auto simp: encode_int_def narrowest_lane_def pack_signed_def bindE_def marker_defs
      twos_complement_def word_of_int_and_ff)

text \<open>
  C7.  For a 64-bit integer \<open>_encode_int\<close> emits the form of the narrowest lane: one
  tiny-positive byte exactly for the values in \<open>[0, 127]\<close>, one tiny-negative byte
  exactly for those in \<open>[-16, -1]\<close>, and otherwise the first of Int8, Int16, Int32 and
  Int64 whose signed range holds the value; no lane that holds the value is shorter.
\<close>

theorem encode_int_narrowest:
  assumes "- (2 ^ 63) \<le> v" and "v < 2 ^ 63"
  shows "encode_int v = Inr (lane_form (narrowest_lane v) v)
       \<and> length (lane_form (narrowest_lane v) v) = lane_length (narrowest_lane v)
       \<and> lane_holds (narrowest_lane v) v
       \<and> (\<forall>l. lane_holds l v \<longrightarrow> lane_length (narrowest_lane v) \<le> lane_length l)
       \<and> (narrowest_lane v = TinyPositive \<longleftrightarrow> 0 \<le> v \<and> v \<le> 127)
       \<and> (narrowest_lane v = TinyNegative \<longleftrightarrow> -16 \<le> v \<and> v \<le> -1)"
proof -
  have "length (lane_form (narrowest_lane v) v) = lane_length (narrowest_lane v)"
    by (cases "narrowest_lane v") (simp_all add: twos_complement_def)
  moreover have "narrowest_lane v = TinyPositive \<longleftrightarrow> 0 \<le> v \<and> v \<le> 127"
    by (simp add: narrowest_lane_def)
  moreover have "narrowest_lane v = TinyNegative \<longleftrightarrow> -16 \<le> v \<and> v \<le> -1"
    by (auto simp add: narrowest_lane_def)
  ultimately show ?thesis
    using assms encode_int_lane_form narrowest_lane_holds narrowest_lane_least by blast
qed

theorem encode_int_narrowest_witness:
  "encode_int (-17) = Inr [0xC8, 0xEF] \<and> encode_int (-16) = Inr [0xF0]
   \<and> encode_int 128 = Inr [0xC9, 0x00, 0x80]
   \<and> encode_int 2147483648 = Inr [0xCB, 0, 0, 0, 0, 0x80, 0, 0, 0]"
  using encode_int_narrowest [of "-17"] encode_int_narrowest [of "-16"]
    encode_int_narrowest [of 128] encode_int_narrowest [of 2147483648]
  by (simp add: narrowest_lane_def twos_complement_def be_bytes_numeral be_bytes_one)

subsection \<open>Maps with keys that are not strings\<close>

lemma decode_tiny_map_example: "decode [0xA1, 0x01, 0x02] = Inr (PDict [(PInt 1, PInt 2)])"
  by code_simp

text \<open>
  C10.  Some input decodes to a map with a key that is not a string: the map branches
  decode a key as any value.  The bytes \<open>A1 01 02\<close> decode to the map \<open>{1: 2}\<close>.
\<close>

theorem decode_map_with_integer_key:
  "decode [0xA1, 0x01, 0x02] = Inr (PDict [(PInt 1, PInt 2)])
   \<and> (\<exists>data kvs k v. decode data = Inr (PDict kvs) \<and> (k, v) \<in> set kvs \<and> (\<forall>s. k \<noteq> PStr s))"
proof -
  have "(PInt 1, PInt 2) \<in> set [(PInt 1, PInt 2)] \<and> (\<forall>s. PInt 1 \<noteq> PStr s)"
    by simp
  with decode_tiny_map_example show ?thesis
    by blast
qed

section \<open>Properties of the chunk framer\<close>

subsection \<open>The writer's output\<close>


lemma write_loop_frames:
  assumes "0 < mcs" "mcs \<le> 65535"
  shows "offset \<le> length data \<Longrightarrow>
     write_loop mcs data offset result
       = Some (Inr (result @ frames (nat mcs) (drop offset data) @ [0, 0]))"
proof (induction "length data - offset" arbitrary: offset result rule: less_induct)
  case less
  show ?case
  proof (cases "offset < length data")
    case False
    with less.prems show ?thesis
      by (subst write_loop.simps) (simp add: frames.simps)
  next
    case True
    define cs where "cs = min (int (length data) - int offset) mcs"
    have cs: "0 < cs" "cs \<le> 65535" "nat cs = min (length data - offset) (nat mcs)"
      using True assms by (auto simp: cs_def)
    have pk: "pack_unsigned 2 cs = Inr (be_bytes 2 (nat cs))"
      using cs by (simp add: pack_unsigned_def)
    have ih: "write_loop mcs data (offset + nat cs) r'
       = Some (Inr (r' @ frames (nat mcs) (drop (offset + nat cs) data) @ [0, 0]))" for r'
      using less.hyps[of "offset + nat cs" r'] cs True by simp
    have fr: "frames (nat mcs) (drop offset data)
        = be_bytes 2 (nat cs) @ take (nat cs) (drop offset data)
           @ frames (nat mcs) (drop (offset + nat cs) data)"
      using True assms cs
      by (subst frames.simps) (auto simp: min_def add.commute)
    show ?thesis
      using True
      by (subst write_loop.simps) (simp add: cs_def[symmetric] pk ih fr)
  qed
qed

lemma writer_write_frames:
  "0 < k \<Longrightarrow>
   writer_write (ChunkWriter_init k) m
     = Some (Inr (frames (nat (min k MAX_CHUNK_SIZE)) m @ [0, 0]))"
  using write_loop_frames[of "min k MAX_CHUNK_SIZE" 0 m "[]"]
  by (simp add: writer_write_def ChunkWriter_init_def MAX_CHUNK_SIZE_def)

subsection \<open>Feeding in slices is feeding at once\<close>

lemma read_chunk_size_extend:
  assumes "read_chunk_size r = Some (n, r1)"
  shows "read_chunk_size (r\<lparr>buffer := buffer r @ x\<rparr>) = Some (n, r1\<lparr>buffer := buffer r1 @ x\<rparr>)"
  using assms
  by (auto simp: read_chunk_size_def Let_def split: option.splits if_splits)

lemma reader_update_commute:
  "r\<lparr>buffer := b, expected_chunk_size := e\<rparr> = r\<lparr>expected_chunk_size := e, buffer := b\<rparr>"
  by (cases r) simp

lemma read_chunk_size_expected:
  "read_chunk_size r = Some (n, r1) \<Longrightarrow> read_chunk_size r1 = Some (n, r1)"
  by (auto simp: read_chunk_size_def Let_def split: option.splits if_splits)

lemma try_read_message_extend:
  "try_read_message r = (res, r') \<Longrightarrow>
   (case res of
      Some m \<Rightarrow> try_read_message (r\<lparr>buffer := buffer r @ x\<rparr>) = (Some m, r'\<lparr>buffer := buffer r' @ x\<rparr>)
    | None \<Rightarrow> try_read_message (r\<lparr>buffer := buffer r @ x\<rparr>)
               = try_read_message (r'\<lparr>buffer := buffer r' @ x\<rparr>))"
proof (induction r arbitrary: res r' rule: try_read_message.induct)
  case (1 r)
  show ?case
  proof (cases "read_chunk_size r")
    case None
    with "1.prems" show ?thesis by (simp add: try_read_message.simps[of r])
  next
    case (Some p)
    obtain n r1 where p: "p = (n, r1)" by (cases p)
    note rc = Some[unfolded p]
    note rcx = read_chunk_size_extend[OF rc, of x]
    define r2 where "r2 = r1\<lparr>expected_chunk_size := None\<rparr>"
    define r3 where "r3 = r1\<lparr>message_buffer := message_buffer r1 @ take n (buffer r1),
                  buffer := drop n (buffer r1), expected_chunk_size := None\<rparr>"
    consider (eom) "n = 0" "message_buffer r2 \<noteq> []"
      | (skip) "n = 0" "message_buffer r2 = []"
      | (wait) "n \<noteq> 0" "length (buffer r1) < n"
      | (chunk) "n \<noteq> 0" "\<not> length (buffer r1) < n"
      by blast
    then show ?thesis
    proof cases
      case eom
      with "1.prems" rc have "res = Some (message_buffer r2)" "r' = r2\<lparr>message_buffer := []\<rparr>"
        by (simp_all add: try_read_message.simps[of r] r2_def Let_def)
      then show ?thesis using eom rcx
        by (simp add: try_read_message.simps[of "r\<lparr>buffer := buffer r @ x\<rparr>"] r2_def Let_def)
    next
      case skip
      with "1.prems" rc have t: "try_read_message r2 = (res, r')"
        by (simp add: try_read_message.simps[of r] r2_def Let_def)
      have nn: "\<not> message_buffer r2 \<noteq> []" using skip by simp
      have e: "try_read_message (r\<lparr>buffer := buffer r @ x\<rparr>)
                = try_read_message (r2\<lparr>buffer := buffer r2 @ x\<rparr>)"
        using skip rcx
        by (simp add: try_read_message.simps[of "r\<lparr>buffer := buffer r @ x\<rparr>"] r2_def Let_def
              reader_update_commute)
      show ?thesis
        using "1.IH"(1)[OF rc refl skip(1) r2_def nn t] e by (cases res) simp_all
    next
      case wait
      with "1.prems" rc have "res = None" "r' = r1"
        by (simp_all add: try_read_message.simps[of r] Let_def)
      moreover have "try_read_message (r\<lparr>buffer := buffer r @ x\<rparr>)
                = try_read_message (r1\<lparr>buffer := buffer r1 @ x\<rparr>)"
        using rcx read_chunk_size_expected[OF rcx]
        by (simp add: try_read_message.simps[of "r\<lparr>buffer := buffer r @ x\<rparr>"]
              try_read_message.simps[of "r1\<lparr>buffer := buffer r1 @ x\<rparr>"])
      ultimately show ?thesis by simp
    next
      case chunk
      with "1.prems" rc have t: "try_read_message r3 = (res, r')"
        by (simp add: try_read_message.simps[of r] r3_def Let_def)
      have e: "try_read_message (r\<lparr>buffer := buffer r @ x\<rparr>)
                = try_read_message (r3\<lparr>buffer := buffer r3 @ x\<rparr>)"
        using chunk rcx
        by (simp add: try_read_message.simps[of "r\<lparr>buffer := buffer r @ x\<rparr>"] r3_def Let_def
              reader_update_commute)
      show ?thesis
        using "1.IH"(2)[OF rc refl chunk t[unfolded r3_def]] e by (cases res) (simp_all add: r3_def)
    qed
  qed
qed

lemma try_read_message_blocked:
  "try_read_message r = (None, r') \<Longrightarrow> try_read_message r' = (None, r')"
  using try_read_message_extend[of r None r' "[]"] by simp

lemma feed_loop_acc:
  "feed_loop r acc = (acc @ fst (feed_loop r []), snd (feed_loop r []))"
proof (induction r arbitrary: acc rule: measure_induct_rule[of reader_measure])
  case (less r)
  obtain res r' where t: "try_read_message r = (res, r')" by (cases "try_read_message r")
  show ?case
  proof (cases res)
    case None
    with t show ?thesis by (simp add: feed_loop.simps[of r])
  next
    case (Some m)
    have lt: "reader_measure r' < reader_measure r"
      using try_read_message_measure[OF t] Some by simp
    show ?thesis
      using t Some less.IH[OF lt, of "acc @ [m]"] less.IH[OF lt, of "[m]"]
      by (simp add: feed_loop.simps[of r])
  qed
qed

lemma feed_loop_extend:
  "feed_loop r acc = (out, r') \<Longrightarrow>
   feed_loop (r\<lparr>buffer := buffer r @ x\<rparr>) acc = feed_loop (r'\<lparr>buffer := buffer r' @ x\<rparr>) out"
proof (induction r arbitrary: acc rule: measure_induct_rule[of reader_measure])
  case (less r)
  obtain res r1 where t: "try_read_message r = (res, r1)" by (cases "try_read_message r")
  show ?case
  proof (cases res)
    case None
    with t less.prems have "out = acc" "r' = r1" by (simp_all add: feed_loop.simps[of r])
    moreover have "try_read_message (r\<lparr>buffer := buffer r @ x\<rparr>)
       = try_read_message (r1\<lparr>buffer := buffer r1 @ x\<rparr>)"
      using try_read_message_extend[OF t, of x] None by simp
    ultimately show ?thesis
      by (simp add: feed_loop.simps[of "r\<lparr>buffer := buffer r @ x\<rparr>"]
            feed_loop.simps[of "r1\<lparr>buffer := buffer r1 @ x\<rparr>"])
  next
    case (Some m)
    have lt: "reader_measure r1 < reader_measure r"
      using try_read_message_measure[OF t] Some by simp
    have "feed_loop r1 (acc @ [m]) = (out, r')"
      using t Some less.prems by (simp add: feed_loop.simps[of r])
    from less.IH[OF lt this] show ?thesis
      using try_read_message_extend[OF t, of x] Some
      by (simp add: feed_loop.simps[of "r\<lparr>buffer := buffer r @ x\<rparr>"])
  qed
qed

lemma feed_append:
  assumes "feed r a = (o1, r1)" and "feed r1 b = (o2, r2)"
  shows "feed r (a @ b) = (o1 @ o2, r2)"
proof -
  have "feed_loop (r\<lparr>buffer := buffer r @ a\<rparr>) [] = (o1, r1)"
    using assms(1) by (simp add: feed_def)
  from feed_loop_extend[OF this, of b]
  have "feed r (a @ b) = feed_loop (r1\<lparr>buffer := buffer r1 @ b\<rparr>) o1"
    by (simp add: feed_def)
  also have "\<dots> = (o1 @ o2, r2)"
    using assms(2) feed_loop_acc[of "r1\<lparr>buffer := buffer r1 @ b\<rparr>" o1] by (simp add: feed_def)
  finally show ?thesis .
qed


lemma feed_loop_blocked: "feed_loop r acc = (out, r') \<Longrightarrow> blocked r'"
proof (induction r arbitrary: acc rule: measure_induct_rule[of reader_measure])
  case (less r)
  obtain res r1 where t: "try_read_message r = (res, r1)" by (cases "try_read_message r")
  show ?case
  proof (cases res)
    case None
    with t less.prems have "r' = r1" by (simp_all add: feed_loop.simps[of r])
    then show ?thesis using try_read_message_blocked t None by (simp add: blocked_def)
  next
    case (Some m)
    have lt: "reader_measure r1 < reader_measure r"
      using try_read_message_measure[OF t] Some by simp
    have "feed_loop r1 (acc @ [m]) = (out, r')"
      using t Some less.prems by (simp add: feed_loop.simps[of r])
    from less.IH[OF lt this] show ?thesis .
  qed
qed

lemma feed_blocked: "feed r a = (out, r') \<Longrightarrow> blocked r'"
  unfolding feed_def by (rule feed_loop_blocked)

lemma feed_empty_blocked: "blocked r \<Longrightarrow> feed r [] = ([], r)"
  by (simp add: feed_def blocked_def feed_loop.simps[of r])

lemma feed_seq_concat:
  "blocked r \<Longrightarrow> feed_seq r parts = (outs, r') \<Longrightarrow>
   feed r (concat parts) = (concat outs, r') \<and> blocked r'"
proof (induction parts arbitrary: r outs r')
  case Nil
  then show ?case by (simp add: feed_empty_blocked)
next
  case (Cons p ps)
  obtain o1 r1 where f1: "feed r p = (o1, r1)" by (cases "feed r p")
  obtain rest r2 where f2: "feed_seq r1 ps = (rest, r2)" by (cases "feed_seq r1 ps")
  have eq: "outs = o1 # rest" "r' = r2" using Cons.prems(2) f1 f2 by simp_all
  from Cons.IH[OF feed_blocked[OF f1] f2] feed_append[OF f1]
  show ?case by (simp add: eq)
qed

lemma feed_seq_take:
  "fst (feed_seq r (take j parts)) = take j (fst (feed_seq r parts))"
proof (induction parts arbitrary: r j)
  case Nil then show ?case by simp
next
  case (Cons p ps)
  show ?case
  proof (cases j)
    case 0 then show ?thesis by simp
  next
    case (Suc i)
    obtain o1 r1 where f1: "feed r p = (o1, r1)" by (cases "feed r p")
    obtain rest r2 where f2: "feed_seq r1 ps = (rest, r2)" by (cases "feed_seq r1 ps")
    obtain rest' r2' where f3: "feed_seq r1 (take i ps) = (rest', r2')"
      by (cases "feed_seq r1 (take i ps)")
    show ?thesis using Cons.IH[of r1 i] f1 f2 f3 Suc by simp
  qed
qed

subsection \<open>The reader on the writer's output\<close>

lemma be_val_snoc: "be_val (bs @ [b]) = be_val bs * 256 + unat b"
  by (simp add: be_val_def)

lemma be_val_be_bytes: "v < 256 ^ n \<Longrightarrow> be_val (be_bytes n v) = v"
proof (induction n arbitrary: v)
  case 0
  then show ?case by (simp add: be_val_def)
next
  case (Suc n)
  have "v div 256 < 256 ^ n"
    using Suc.prems by (simp add: less_mult_imp_div_less mult.commute)
  then show ?case
    using Suc.IH[of "v div 256"] by (simp add: be_val_snoc unat_of_nat)
qed



lemma try_read_message_idle: "try_read_message (reader_idle mb) = (None, reader_idle mb)"
  by (subst try_read_message.simps) (simp add: read_chunk_size_def reader_idle_def)

lemma feed_loop_idle: "feed_loop (reader_idle mb) acc = (acc, reader_idle mb)"
  by (subst feed_loop.simps) (simp add: try_read_message_idle)

lemma feed_short:
  assumes "length p < 2"
  shows "fst (feed (reader_idle mb) p) = []"
  using assms
  by (simp add: feed_def reader_idle_def
        feed_loop.simps[of "\<lparr>buffer = p, message_buffer = mb, expected_chunk_size = None\<rparr>"]
        try_read_message.simps[of "\<lparr>buffer = p, message_buffer = mb, expected_chunk_size = None\<rparr>"]
        read_chunk_size_def)

lemma unpack_header: "n < 65536 \<Longrightarrow> unpack_unsigned (take 2 (be_bytes 2 n @ c)) = n"
  using be_val_be_bytes[of n 2] by (simp add: unpack_unsigned_def)

lemma feed_partial_chunk:
  assumes "0 < n" "n < 65536" "length c < n"
  shows "fst (feed (reader_idle mb) (be_bytes 2 n @ c)) = []"
  using assms unpack_header[of n c]
  by (simp add: feed_def reader_idle_def
        feed_loop.simps[of "\<lparr>buffer = be_bytes 2 n @ c, message_buffer = mb, expected_chunk_size = None\<rparr>"]
        try_read_message.simps[of "\<lparr>buffer = be_bytes 2 n @ c, message_buffer = mb, expected_chunk_size = None\<rparr>"]
        read_chunk_size_def Let_def)

lemma feed_full_chunk:
  assumes "0 < n" "n < 65536" "length c = n"
  shows "feed (reader_idle mb) (be_bytes 2 n @ c) = ([], reader_idle (mb @ c))"
proof -
  have "try_read_message
          \<lparr>buffer = be_bytes 2 n @ c, message_buffer = mb, expected_chunk_size = None\<rparr>
        = (None, reader_idle (mb @ c))"
    using assms unpack_header[of n c] try_read_message_idle[of "mb @ c"]
    by (subst try_read_message.simps) (simp add: read_chunk_size_def Let_def reader_idle_def)
  then show ?thesis
    by (simp add: feed_def reader_idle_def
        feed_loop.simps[of "\<lparr>buffer = be_bytes 2 n @ c, message_buffer = mb, expected_chunk_size = None\<rparr>"])
qed

lemma feed_terminator:
  "feed (reader_idle mb) [0, 0] = (if mb = [] then [] else [mb], reader_idle [])"
proof -
  have u: "unpack_unsigned [0, 0] = 0"
    by (simp add: unpack_unsigned_def be_val_def)
  have "try_read_message \<lparr>buffer = [0, 0], message_buffer = mb, expected_chunk_size = None\<rparr>
        = (if mb = [] then None else Some mb, reader_idle [])"
    using u try_read_message_idle[of "[]"]
    by (subst try_read_message.simps) (simp add: read_chunk_size_def Let_def reader_idle_def)
  then show ?thesis
    using feed_loop_idle[of "[]"]
    by (simp add: feed_def reader_idle_def
        feed_loop.simps[of "\<lparr>buffer = [0, 0], message_buffer = mb, expected_chunk_size = None\<rparr>"])
qed

lemma frames_Nil [simp]: "frames k [] = []"
  by (simp add: frames.simps)

lemma frames_Cons:
  "d \<noteq> [] \<Longrightarrow> 0 < k \<Longrightarrow>
   frames k d = be_bytes 2 (min (length d) k) @ take k d @ frames k (drop k d)"
  by (subst frames.simps) simp

lemma feed_frames:
  assumes "0 < k" "k < 65536"
  shows "feed (reader_idle mb) (frames k d @ [0, 0])
       = (if mb @ d = [] then [] else [mb @ d], reader_idle [])"
proof (induction "length d" arbitrary: d mb rule: less_induct)
  case less
  show ?case
  proof (cases "d = []")
    case True
    then show ?thesis by (simp add: feed_terminator)
  next
    case False
    define n where "n = min (length d) k"
    have n: "0 < n" "n < 65536" "length (take k d) = n"
      using False assms by (auto simp: n_def)
    have 1: "feed (reader_idle mb) (be_bytes 2 n @ take k d) = ([], reader_idle (mb @ take k d))"
      using feed_full_chunk[OF n] .
    have 2: "feed (reader_idle (mb @ take k d)) (frames k (drop k d) @ [0, 0])
         = (if (mb @ take k d) @ drop k d = [] then [] else [(mb @ take k d) @ drop k d], reader_idle [])"
      using less.hyps[of "drop k d" "mb @ take k d"] False assms by simp
    show ?thesis
      using feed_append[OF 1 2] False
      by (simp add: frames_Cons[OF False assms(1)] n_def)
  qed
qed

lemma feed_frames_prefix:
  assumes "0 < k" "k < 65536"
  shows "j < length (frames k d @ [0, 0]) \<Longrightarrow>
         fst (feed (reader_idle mb) (take j (frames k d @ [0, 0]))) = []"
proof (induction "length d" arbitrary: d mb j rule: less_induct)
  case less
  show ?case
  proof (cases "d = []")
    case True
    then show ?thesis using less.prems by (simp add: feed_short)
  next
    case False
    define n where "n = min (length d) k"
    define c where "c = take k d"
    define rest where "rest = frames k (drop k d) @ [0, 0]"
    have n: "0 < n" "n < 65536" "length c = n"
      using False assms by (auto simp: n_def c_def)
    have fr: "frames k d @ [0, 0] = (be_bytes 2 n @ c) @ rest"
      by (simp add: frames_Cons[OF False assms(1)] n_def c_def rest_def)
    show ?thesis
    proof (cases "j < 2 + n")
      case True
      show ?thesis
      proof (cases "j < 2")
        case True
        then show ?thesis by (simp add: feed_short)
      next
        case False
        have "take j (frames k d @ [0, 0]) = be_bytes 2 n @ take (j - 2) c"
          using False True n by (simp add: fr)
        moreover have "length (take (j - 2) c) < n"
          using False True n by simp
        ultimately show ?thesis
          using feed_partial_chunk[OF n(1,2)] by simp
      qed
    next
      case False
      have tk: "take j (frames k d @ [0, 0]) = (be_bytes 2 n @ c) @ take (j - (2 + n)) rest"
        using False n by (simp add: fr)
      have jl: "j - (2 + n) < length (frames k (drop k d) @ [0, 0])"
        using less.prems False n by (simp add: fr rest_def)
      have 1: "feed (reader_idle mb) (be_bytes 2 n @ c) = ([], reader_idle (mb @ c))"
        using feed_full_chunk[OF n] .
      obtain o2 r2 where 2: "feed (reader_idle (mb @ c)) (take (j - (2 + n)) rest) = (o2, r2)"
        by (cases "feed (reader_idle (mb @ c)) (take (j - (2 + n)) rest)")
      have "o2 = []"
        using less.hyps[of "drop k d" "j - (2 + n)" "mb @ c"] jl 2 \<open>d \<noteq> []\<close> assms
        by (simp add: rest_def)
      with feed_append[OF 1 2] show ?thesis
        unfolding tk by simp
    qed
  qed
qed

lemma ChunkReader_init_idle: "ChunkReader_init = reader_idle []"
  by (simp add: ChunkReader_init_def reader_idle_def)

lemma blocked_idle: "blocked (reader_idle mb)"
  by (simp add: blocked_def try_read_message_idle)

lemma concat_take_prefix:
  "concat (take j parts) = take (length (concat (take j parts))) (concat parts)"
proof -
  have "concat parts = concat (take j parts) @ concat (drop j parts)"
    by (metis append_take_drop_id concat_append)
  then show ?thesis by simp
qed

lemma feed_seq_frames:
  assumes "0 < k" "k < 65536" "m \<noteq> []" "concat parts = frames k m @ [0, 0]"
  shows "concat (fst (feed_seq ChunkReader_init parts)) = [m]"
    and "length (concat (take j parts)) < length (frames k m @ [0, 0]) \<Longrightarrow>
         concat (take j (fst (feed_seq ChunkReader_init parts))) = []"
proof -
  obtain outs r' where fs: "feed_seq (reader_idle []) parts = (outs, r')"
    by (cases "feed_seq (reader_idle []) parts")
  have "feed (reader_idle []) (concat parts) = (concat outs, r')"
    using feed_seq_concat[OF blocked_idle fs] by simp
  moreover have "feed (reader_idle []) (concat parts) = ([m], reader_idle [])"
    using feed_frames[OF assms(1,2), of "[]" m] assms(3,4) by simp
  ultimately have "concat outs = [m]"
    by simp
  then show "concat (fst (feed_seq ChunkReader_init parts)) = [m]"
    by (simp add: ChunkReader_init_idle fs)
next
  assume lt: "length (concat (take j parts)) < length (frames k m @ [0, 0])"
  obtain outs r' where fs: "feed_seq (reader_idle []) (take j parts) = (outs, r')"
    by (cases "feed_seq (reader_idle []) (take j parts)")
  have o: "outs = take j (fst (feed_seq (reader_idle []) parts))"
    using feed_seq_take[of "reader_idle []" j parts] fs by simp
  have "concat (take j parts) = take (length (concat (take j parts))) (frames k m @ [0, 0])"
    using concat_take_prefix[of j parts] assms(4) by simp
  with feed_frames_prefix[OF assms(1,2) lt, of "[]"]
  have "fst (feed (reader_idle []) (concat (take j parts))) = []"
    by simp
  moreover have "feed (reader_idle []) (concat (take j parts)) = (concat outs, r')"
    using feed_seq_concat[OF blocked_idle fs] by simp
  ultimately have "concat outs = []"
    by simp
  then show "concat (take j (fst (feed_seq ChunkReader_init parts))) = []"
    by (simp add: ChunkReader_init_idle o)
qed

text \<open>
  C2, as amended.  For a writer made with a positive \<open>max_chunk_size\<close> and a message
  \<open>m\<close> that is not empty, \<open>write\<close> returns the framed bytes, and for every partition of
  them into slices fed in order to a new reader, the messages returned by all the calls
  together are exactly \<open>[m]\<close>, and the calls made before the last byte has been fed
  return no message.
\<close>

theorem chunk_roundtrip_any_partition:
  assumes "0 < k" and "m \<noteq> []"
  shows "(\<exists>framed. writer_write (ChunkWriter_init k) m = Some (Inr framed))
       \<and> (\<forall>framed parts.
            writer_write (ChunkWriter_init k) m = Some (Inr framed) \<and> concat parts = framed \<longrightarrow>
              concat (fst (feed_seq ChunkReader_init parts)) = [m]
              \<and> (\<forall>j. length (concat (take j parts)) < length framed \<longrightarrow>
                     concat (take j (fst (feed_seq ChunkReader_init parts))) = []))"
proof -
  define K where "K = nat (min k MAX_CHUNK_SIZE)"
  have K: "0 < K" "K < 65536"
    using assms(1) by (auto simp: K_def MAX_CHUNK_SIZE_def)
  have w: "writer_write (ChunkWriter_init k) m = Some (Inr (frames K m @ [0, 0]))"
    using writer_write_frames[OF assms(1)] by (simp add: K_def)
  show ?thesis
    using w feed_seq_frames[OF K assms(2)] by auto
qed

lemma writer_write_example:
  "writer_write (ChunkWriter_init 2) [1, 2, 3] = Some (Inr [0, 2, 1, 2, 0, 1, 3, 0, 0])"
  by (simp add: writer_write_frames MAX_CHUNK_SIZE_def frames.simps be_bytes_numeral be_bytes_one)

theorem chunk_roundtrip_any_partition_witness:
  "writer_write (ChunkWriter_init 2) [1, 2, 3] = Some (Inr [0, 2, 1, 2, 0, 1, 3, 0, 0])
   \<and> concat (fst (feed_seq ChunkReader_init [[0], [2, 1, 2, 0, 1], [], [3, 0], [0]])) = [[1, 2, 3]]
   \<and> concat (take 4 (fst (feed_seq ChunkReader_init [[0], [2, 1, 2, 0, 1], [], [3, 0], [0]]))) = []"
proof -
  have a: "(0::int) < 2" "[1, 2, 3 :: byte] \<noteq> []" by simp_all
  have c: "concat [[0], [2, 1, 2, 0, 1], [], [3, 0], [0]] = [0, 2, 1, 2, 0, 1, 3, 0, 0 :: byte]"
    by simp
  have l: "length (concat (take 4 [[0], [2, 1, 2, 0, 1], [], [3, 0], [0 :: byte]]))
            < length [0, 2, 1, 2, 0, 1, 3, 0, 0 :: byte]"
    by simp
  from chunk_roundtrip_any_partition[OF a] writer_write_example c l
  show ?thesis by blast
qed

text \<open>
  C2 as stated fails for the empty message: its framing is the terminator alone, which
  the reader skips, so the reader returns no message where the claim expects \<open>[b'']\<close>.
\<close>

theorem empty_message_is_skipped:
  "writer_write (ChunkWriter_init MAX_CHUNK_SIZE) [] = Some (Inr [0, 0])
   \<and> concat [[0, 0 :: byte]] = [0, 0]
   \<and> feed_seq ChunkReader_init [[0, 0]] = ([[]], ChunkReader_init)
   \<and> concat (fst (feed_seq ChunkReader_init [[0, 0]])) \<noteq> [[]]"
proof -
  have "writer_write (ChunkWriter_init MAX_CHUNK_SIZE) [] = Some (Inr [0, 0])"
    by (simp add: writer_write_def write_loop.simps)
  moreover have "feed ChunkReader_init [0, 0] = ([], ChunkReader_init)"
    using feed_terminator[of "[]"] by (simp add: ChunkReader_init_idle)
  ultimately show ?thesis by simp
qed

section \<open>Properties of transactions\<close>

lemma apply_mutations_other:
  "a \<noteq> get_working_graph s \<Longrightarrow> cells (apply_mutations s h fs) a = cells h a"
  unfolding apply_mutations_def
  by (induction fs arbitrary: h) (simp_all add: mutate_def)

text \<open>
  Claim C9.  For a session that is not in a transaction and holds an allocated graph:
  \<open>begin_transaction\<close>, then any sequence of mutations, each applied in place to the
  graph that \<open>get_working_graph\<close> returns, then \<open>rollback_transaction\<close>, all succeed,
  and afterwards the session holds the same graph object with the content it had
  before, is not in a transaction and has no transaction graph.  The mutations go to
  the copy that \<open>begin_transaction\<close> has made, which is a new object.
\<close>

theorem rollback_restores_live_graph:
  assumes "\<not> in_transaction s" and "graph s < next_ref h"
  shows "\<exists>s' h'. tx_rollback_scenario s h fs = (Inr (), s', h')
          \<and> graph s' = graph s \<and> cells h' (graph s') = cells h (graph s)
          \<and> \<not> in_transaction s' \<and> tx_graph s' = None \<and> get_working_graph s' = graph s"
proof -
  define s1 where "s1 = s\<lparr>tx_graph := Some (next_ref h), in_transaction := True\<rparr>"
  define h1 where "h1 = h\<lparr>cells := (cells h)(next_ref h := cells h (graph s)),
                          next_ref := Suc (next_ref h)\<rparr>"
  have b: "begin_transaction s h = (Inr (), s1, h1)"
    using assms(1) by (simp add: begin_transaction_def deepcopy_def s1_def h1_def)
  have w: "get_working_graph s1 = next_ref h"
    by (simp add: get_working_graph_def s1_def)
  have "graph s \<noteq> get_working_graph s1"
    using assms(2) w by simp
  then have "cells (apply_mutations s1 h1 fs) (graph s) = cells h1 (graph s)"
    by (rule apply_mutations_other)
  also have "\<dots> = cells h (graph s)"
    using assms(2) by (simp add: h1_def)
  finally show ?thesis
    using b by (simp add: tx_rollback_scenario_def rollback_transaction_def s1_def
        get_working_graph_def)
qed

theorem rollback_restores_live_graph_witness:
  "\<not> in_transaction (BoltSession_init 0)
   \<and> graph (BoltSession_init 0) < next_ref \<lparr>cells = (\<lambda>a. 5 :: int), next_ref = 1\<rparr>
   \<and> (\<exists>s' h'. tx_rollback_scenario (BoltSession_init 0) \<lparr>cells = (\<lambda>a. 5 :: int), next_ref = 1\<rparr>
                 [\<lambda>g. g + 1, \<lambda>g. g * 2] = (Inr (), s', h')
          \<and> graph s' = 0 \<and> cells h' (graph s') = 5 \<and> \<not> in_transaction s'
          \<and> tx_graph s' = None \<and> get_working_graph s' = 0)"
  using rollback_restores_live_graph[of "BoltSession_init 0"
      "\<lparr>cells = (\<lambda>a. 5 :: int), next_ref = 1\<rparr>" "[\<lambda>g. g + 1, \<lambda>g. g * 2]"]
  by (simp add: BoltSession_init_def)

section \<open>Properties of the message dispatch\<close>

subsection \<open>Messages in the FAILED state\<close>

text \<open>
  In FAILED, HELLO, LOGON, RUN, PULL, DISCARD, BEGIN, COMMIT and ROLLBACK are answered
  with IGNORED.  The handlers of TELEMETRY and LOGOFF (and of ROUTE) do not look at
  the state and answer with SUCCESS.
\<close>

lemmas msg_tag_defs =
  MSG_HELLO_def MSG_LOGON_def MSG_RUN_def MSG_PULL_def MSG_DISCARD_def MSG_BEGIN_def
  MSG_COMMIT_def MSG_ROLLBACK_def MSG_GOODBYE_def MSG_RESET_def MSG_ROUTE_def MSG_LOGOFF_def
  MSG_TELEMETRY_def

lemma failed_not_other:
  "state_is c FAILED \<Longrightarrow>
     \<not> state_is c AUTHENTICATION \<and> \<not> state_is c READY \<and> \<not> state_is c TX_READY
     \<and> \<not> state_is c STREAMING \<and> \<not> state_is c TX_STREAMING"
  by (simp add: state_is_def)

lemma handle_hello_failed: "state_is c FAILED \<Longrightarrow> handle_hello env flds c = send_ignored env c"
  by (simp add: handle_hello_def failed_not_other)

lemma handle_run_failed: "state_is c FAILED \<Longrightarrow> handle_run env flds c = send_ignored env c"
  by (simp add: handle_run_def failed_not_other)

lemma handle_pull_failed: "state_is c FAILED \<Longrightarrow> handle_pull env flds c = send_ignored env c"
  by (simp add: handle_pull_def failed_not_other)

lemma handle_discard_failed:
  "state_is c FAILED \<Longrightarrow> handle_discard env flds c = send_ignored env c"
  by (simp add: handle_discard_def failed_not_other)

lemma handle_begin_failed: "state_is c FAILED \<Longrightarrow> handle_begin env flds c = send_ignored env c"
  by (simp add: handle_begin_def failed_not_other)

lemma handle_commit_failed:
  "state_is c FAILED \<Longrightarrow> handle_commit env flds c = send_ignored env c"
  by (simp add: handle_commit_def failed_not_other)

lemma handle_rollback_failed:
  "state_is c FAILED \<Longrightarrow> handle_rollback env flds c = send_ignored env c"
  by (simp add: handle_rollback_def failed_not_other)

lemma dispatch_failed_ignored:
  assumes "state_is c FAILED"
    and "tag \<in> {MSG_HELLO, MSG_LOGON, MSG_RUN, MSG_PULL, MSG_DISCARD, MSG_BEGIN, MSG_COMMIT,
                 MSG_ROLLBACK}"
  shows "dispatch_message env tag flds c = send_ignored env c"
proof -
  consider "tag = MSG_HELLO" | "tag = MSG_LOGON" | "tag = MSG_RUN" | "tag = MSG_PULL"
    | "tag = MSG_DISCARD" | "tag = MSG_BEGIN" | "tag = MSG_COMMIT" | "tag = MSG_ROLLBACK"
    using assms(2) by auto
  then show ?thesis
  proof cases
    case 1 then show ?thesis
      by (simp add: dispatch_message_def handle_hello_failed[OF assms(1)])
  next
    case 2 then show ?thesis
      by (simp add: dispatch_message_def handle_hello_failed[OF assms(1)])
  next
    case 3 then show ?thesis
      by (simp add: dispatch_message_def handle_run_failed[OF assms(1)] msg_tag_defs)
  next
    case 4 then show ?thesis
      by (simp add: dispatch_message_def handle_pull_failed[OF assms(1)] msg_tag_defs)
  next
    case 5 then show ?thesis
      by (simp add: dispatch_message_def handle_discard_failed[OF assms(1)] msg_tag_defs)
  next
    case 6 then show ?thesis
      by (simp add: dispatch_message_def handle_begin_failed[OF assms(1)] msg_tag_defs)
  next
    case 7 then show ?thesis
      by (simp add: dispatch_message_def handle_commit_failed[OF assms(1)] msg_tag_defs)
  next
    case 8 then show ?thesis
      by (simp add: dispatch_message_def handle_rollback_failed[OF assms(1)] msg_tag_defs)
  qed
qed

lemma dispatch_telemetry:
  "dispatch_message env MSG_TELEMETRY flds c = send_success env (PDict []) c"
  by (simp add: dispatch_message_def handle_telemetry_def
      msg_tag_defs)

lemma dispatch_logoff:
  "dispatch_message env MSG_LOGOFF flds c = send_success env (PDict []) c"
  by (simp add: dispatch_message_def handle_logoff_def
      msg_tag_defs)

lemma dispatch_route:
  "dispatch_message env MSG_ROUTE flds c = handle_route env flds c"
  by (simp add: dispatch_message_def msg_tag_defs)

lemma encode_success_empty:
  "encode strf (create_success (PDict [])) = Inr [0xB1, 0x70, 0xA0]"
  by (simp add: encode_def create_success_def py_truthy_def MSG_SUCCESS_def structure_header_def
      map_header_def bindE_def marker_defs)

lemma encode_ignored:
  "encode strf create_ignored = Inr [0xB1, 0x7E, 0xA0]"
  by (simp add: encode_def create_ignored_def MSG_IGNORED_def structure_header_def
      map_header_def bindE_def marker_defs)

lemma default_writer_small:
  "writer_write (ChunkWriter_init MAX_CHUNK_SIZE) [a, b, c] = Some (Inr [0, 3, a, b, c, 0, 0])"
  by (simp add: writer_write_frames MAX_CHUNK_SIZE_def frames_Cons be_bytes_numeral be_bytes_one)

lemma send_success_empty:
  "conn_chunk_writer c = ChunkWriter_init MAX_CHUNK_SIZE \<Longrightarrow>
   send_success env (PDict []) c
     = Some (Inr (), c\<lparr>conn_written := conn_written c @ [0, 3, 0xB1, 0x70, 0xA0, 0, 0]\<rparr>)"
  by (simp add: send_success_def send_message_def encode_success_empty default_writer_small)

lemma send_ignored_bytes:
  "conn_chunk_writer c = ChunkWriter_init MAX_CHUNK_SIZE \<Longrightarrow>
   send_ignored env c
     = Some (Inr (), c\<lparr>conn_written := conn_written c @ [0, 3, 0xB1, 0x7E, 0xA0, 0, 0]\<rparr>)"
  by (simp add: send_ignored_def send_message_def encode_ignored default_writer_small)

text \<open>
  Claim C4.  The claim does not hold for TELEMETRY, ROUTE and LOGOFF.  On a ready
  connection, a RUN whose query the engine rejects is answered with FAILURE and
  leaves the connection in FAILED.  A TELEMETRY, a ROUTE or a LOGOFF that follows is
  answered with SUCCESS, where a PULL that follows is answered with IGNORED.
\<close>

theorem failed_state_success_replies:
  "state_after [(MSG_RUN, [PStr []])] = Some FAILED
   \<and> reply_tags [(MSG_RUN, [PStr []]), (MSG_TELEMETRY, [])] = Some [Some MSG_FAILURE, Some MSG_SUCCESS]
   \<and> reply_tags [(MSG_RUN, [PStr []]), (MSG_ROUTE, [])] = Some [Some MSG_FAILURE, Some MSG_SUCCESS]
   \<and> reply_tags [(MSG_RUN, [PStr []]), (MSG_LOGOFF, [])] = Some [Some MSG_FAILURE, Some MSG_SUCCESS]
   \<and> reply_tags [(MSG_RUN, [PStr []]), (MSG_PULL, [])] = Some [Some MSG_FAILURE, Some MSG_IGNORED]"
  by code_simp

section \<open>Properties of the handshake\<close>

lemma find_append_case:
  "List.find P (xs @ ys) = (case List.find P xs of None \<Rightarrow> List.find P ys | Some x \<Rightarrow> Some x)"
  by (induction xs) simp_all

lemma find_map_Pair:
  "List.find (\<lambda>(p, s). Q p s) (map (Pair p) ys) = map_option (Pair p) (List.find (Q p) ys)"
  by (induction ys) simp_all

lemma match_supported_find:
  "match_supported p sups = List.find (compatible p) sups"
proof (induction sups)
  case Nil
  then show ?case by simp
next
  case (Cons s sups)
  obtain major minor version_range where p: "p = (major, minor, version_range)"
    by (cases p) auto
  obtain sup_major sup_minor where s: "s = (sup_major, sup_minor)"
    by (cases s) auto
  show ?case
    using Cons.IH by (auto simp add: p s)
qed

lemma select_version_first_compatible:
  "select_version ps = first_compatible ps"
proof (induction ps)
  case Nil
  then show ?case by (simp add: first_compatible_def)
next
  case (Cons p ps)
  show ?case
    using Cons.IH
    by (simp add: first_compatible_def find_append_case find_map_Pair match_supported_find
        split: option.split)
qed

lemma no_major_zero: "match_supported (0, minor, version_range) SUPPORTED_VERSIONS = None"
  by (simp add: SUPPORTED_VERSIONS_def)

lemma select_version_skip_zero:
  "select_version (concat (map (\<lambda>p. if fst p > 0 then [p] else []) ps)) = select_version ps"
proof (induction ps)
  case Nil
  then show ?case by simp
next
  case (Cons p ps)
  obtain major minor version_range where p: "p = (major, minor, version_range)"
    by (cases p) auto
  show ?case
    using Cons.IH by (cases "major = 0") (simp_all add: p no_major_zero split: option.split)
qed

lemma and_255: "(v::nat) AND 0xFF = v mod 256"
proof -
  have "v AND mask 8 = v mod 2 ^ 8"
    by (simp only: take_bit_eq_mask[symmetric] take_bit_eq_mod)
  then show ?thesis by (simp add: mask_eq_exp_minus_1)
qed

lemma list_of_length_4:
  assumes "length s = 4"
  obtains a b c d where "s = [a, b, c, d]"
proof -
  from assms have "length s = Suc (Suc (Suc (Suc 0)))" by simp
  then show ?thesis
    using that by (auto simp add: length_Suc_conv)
qed

lemma parse_slot:
  assumes "length s = 4"
  shows "unpack_unsigned s AND 0xFF = unat (s ! 3)"
    and "drop_bit 8 (unpack_unsigned s) AND 0xFF = unat (s ! 2)"
    and "drop_bit 16 (unpack_unsigned s) AND 0xFF = unat (s ! 1)"
proof -
  obtain a b c d where s: "s = [a, b, c, d]"
    using assms by (rule list_of_length_4)
  have bd: "unat a < 256" "unat b < 256" "unat c < 256" "unat d < 256"
    using unsigned_less[of a] unsigned_less[of b] unsigned_less[of c] unsigned_less[of d]
    by simp_all
  have v: "unpack_unsigned [a, b, c, d] = ((unat a * 256 + unat b) * 256 + unat c) * 256 + unat d"
    by (simp add: unpack_unsigned_def be_val_def)
  have m: "\<And>x y. y < 256 \<Longrightarrow> (x * 256 + y) mod 256 = (y::nat)"
    by simp
  have q: "\<And>x y. y < 256 \<Longrightarrow> (x * 256 + y) div 256 = (x::nat)"
    by simp
  have r3: "unpack_unsigned [a, b, c, d] mod 256 = unat d"
    unfolding v by (rule m[OF bd(4)])
  have r2: "unpack_unsigned [a, b, c, d] div 256 mod 256 = unat c"
    unfolding v q[OF bd(4)] by (rule m[OF bd(3)])
  have "unpack_unsigned [a, b, c, d] div 256 div 256 mod 256 = unat b"
    unfolding v q[OF bd(4)] q[OF bd(3)] by (rule m[OF bd(2)])
  then have r1: "unpack_unsigned [a, b, c, d] div 65536 mod 256 = unat b"
    by (simp add: div_mult2_eq[symmetric])
  show "unpack_unsigned s AND 0xFF = unat (s ! 3)"
    by (simp add: and_255 s r3)
  show "drop_bit 8 (unpack_unsigned s) AND 0xFF = unat (s ! 2)"
    by (simp add: and_255 s drop_bit_eq_div r2)
  show "drop_bit 16 (unpack_unsigned s) AND 0xFF = unat (s ! 1)"
    by (simp add: and_255 s drop_bit_eq_div r1)
qed

lemma parse_versions_slots:
  assumes "length block = 16"
  shows "parse_versions block
       = concat (map (\<lambda>p. if fst p > 0 then [p] else []) (map slot_proposal (slots block)))"
proof -
  have "\<And>i. i < 4 \<Longrightarrow> length (take 4 (drop (i * 4) block)) = 4"
    using assms by auto
  then have "\<And>i. i \<in> set [0..<4] \<Longrightarrow>
      (let v = unpack_unsigned (take 4 (drop (i * 4) block));
           major = v AND 0xFF; minor = drop_bit 8 v AND 0xFF;
           version_range = drop_bit 16 v AND 0xFF
       in if major > 0 then [(major, minor, version_range)] else [])
    = (if fst (slot_proposal (take 4 (drop (i * 4) block))) > 0
       then [slot_proposal (take 4 (drop (i * 4) block))] else [])"
    by (simp add: parse_slot slot_proposal_def Let_def)
  then show ?thesis
    unfolding parse_versions_def slots_def map_map comp_def
    by (intro arg_cong[where f = concat] map_cong refl)
qed

lemma selection_of_block:
  assumes "length block = 16"
  shows "select_version (parse_versions block)
       = first_compatible (map slot_proposal (slots block))"
proof -
  have "select_version (parse_versions block) = select_version (map slot_proposal (slots block))"
    by (simp only: parse_versions_slots[OF assms] select_version_skip_zero)
  then show ?thesis
    by (simp only: select_version_first_compatible)
qed

lemma find_Some_set: "List.find P xs = Some x \<Longrightarrow> x \<in> set xs"
  by (induction xs) (auto split: if_splits)

lemma first_compatible_supported:
  assumes "first_compatible ps = Some s"
  shows "s \<in> set SUPPORTED_VERSIONS"
proof -
  from assms obtain q where
    "List.find (\<lambda>(p, s). compatible p s) (List.product ps SUPPORTED_VERSIONS) = Some q" "s = snd q"
    by (auto simp add: first_compatible_def)
  note q = this
  have "q \<in> set (List.product ps SUPPORTED_VERSIONS)"
    using q(1) by (rule find_Some_set)
  then show ?thesis
    using q(2) by (simp add: mem_Times_iff)
qed

lemma response_bytes:
  assumes "s \<in> set SUPPORTED_VERSIONS"
  shows "pack_unsigned 4 (int (push_bit 8 (snd s) OR fst s))
       = Inr [0, 0, of_nat (snd s), of_nat (fst s)]"
  using assms
  by (auto simp add: SUPPORTED_VERSIONS_def pack_unsigned_def be_bytes_numeral be_bytes_one)

lemma read_magic:
  assumes "conn_reader c = BOLT_MAGIC @ block @ rest"
  shows "readexactly 4 c = Some (Inr BOLT_MAGIC, c\<lparr>conn_reader := block @ rest\<rparr>)"
  using assms by (simp add: readexactly_def BOLT_MAGIC_def)

lemma read_block:
  assumes "length block = 16"
  shows "readexactly 16 (c\<lparr>conn_reader := block @ rest\<rparr>)
       = Some (Inr block, c\<lparr>conn_reader := rest\<rparr>)"
  using assms by (simp add: readexactly_def)

lemma negotiation_to_authentication:
  assumes "sm_state (conn_state c) = NEGOTIATION"
  shows "state_transition_to AUTHENTICATION c
       = Some (Inr (), c\<lparr>conn_state := (conn_state c)\<lparr>sm_state := AUTHENTICATION\<rparr>\<rparr>)"
  using assms by (simp add: state_transition_to_def transition_to_def can_transition_to_def)

lemma handshake_no_match:
  assumes "conn_reader c = BOLT_MAGIC @ block @ rest" and "length block = 16"
    and "first_compatible (map slot_proposal (slots block)) = None"
  shows "handshake c
       = Some (Inr False, c\<lparr>conn_reader := rest, conn_written := conn_written c @ [0, 0, 0, 0]\<rparr>)"
  using assms(3)
  by (simp add: handshake_def handshake_body_def try_except_def bindC_def thenC_def returnC_def
      read_magic[OF assms(1)] read_block[OF assms(2)] selection_of_block[OF assms(2)]
      writer_write_raw_def)

lemma handshake_match:
  assumes "conn_reader c = BOLT_MAGIC @ block @ rest" and "length block = 16"
    and "sm_state (conn_state c) = NEGOTIATION"
    and "first_compatible (map slot_proposal (slots block)) = Some (major, minor)"
  shows "handshake c
       = Some (Inr True,
           c\<lparr>conn_reader := rest, conn_negotiated_version := Some (major, minor),
             conn_written := conn_written c @ [0, 0, of_nat minor, of_nat major],
             conn_state := (conn_state c)\<lparr>sm_state := AUTHENTICATION\<rparr>\<rparr>)"
proof -
  have "(major, minor) \<in> set SUPPORTED_VERSIONS"
    using assms(4) by (rule first_compatible_supported)
  from response_bytes[OF this]
  have rb: "pack_unsigned 4 (int (push_bit 8 minor OR major))
          = Inr [0, 0, of_nat minor, of_nat major]"
    by simp
  show ?thesis
    using assms(3,4)
    by (simp add: handshake_def handshake_body_def try_except_def bindC_def thenC_def returnC_def
        read_magic[OF assms(1)] read_block[OF assms(2)] selection_of_block[OF assms(2)]
        writer_write_raw_def modifyC_def liftE_def rb negotiation_to_authentication)
qed

text \<open>
  Claim C6.  A connection in NEGOTIATION reads the magic bytes and a block of four
  proposals.  If some supported version is compatible with some proposal, the
  handshake selects the first compatible pair, in the order of the proposals and then
  of the server's list (5,4), (5,0), (4,4), (4,3), writes the four bytes
  \<open>00 00 minor major\<close> of the selected version, records it and moves to
  AUTHENTICATION.  Otherwise it writes \<open>00 00 00 00\<close> and returns \<open>False\<close>, and \<open>handle\<close>
  closes the connection.  Nothing else of the connection changes.
\<close>

theorem handshake_selects_first_compatible:
  assumes "conn_reader c = BOLT_MAGIC @ block @ rest" and "length block = 16"
    and "sm_state (conn_state c) = NEGOTIATION"
  shows "case first_compatible (map slot_proposal (slots block)) of
           Some (major, minor) \<Rightarrow>
             handshake c
               = Some (Inr True,
                   c\<lparr>conn_reader := rest, conn_negotiated_version := Some (major, minor),
                     conn_written := conn_written c @ [0, 0, of_nat minor, of_nat major],
                     conn_state := (conn_state c)\<lparr>sm_state := AUTHENTICATION\<rparr>\<rparr>)
         | None \<Rightarrow>
             handshake c
               = Some (Inr False,
                   c\<lparr>conn_reader := rest, conn_written := conn_written c @ [0, 0, 0, 0]\<rparr>)
             \<and> (\<forall>serve. handle serve c
                   = Some (c\<lparr>conn_reader := rest, conn_written := conn_written c @ [0, 0, 0, 0],
                             conn_closed := True\<rparr>))"
proof (cases "first_compatible (map slot_proposal (slots block))")
  case None
  have h: "handshake c
       = Some (Inr False, c\<lparr>conn_reader := rest, conn_written := conn_written c @ [0, 0, 0, 0]\<rparr>)"
    using assms(1,2) None by (rule handshake_no_match)
  have "\<And>serve. handle serve c
       = Some (c\<lparr>conn_reader := rest, conn_written := conn_written c @ [0, 0, 0, 0],
                 conn_closed := True\<rparr>)"
    by (simp add: handle_def try_except_def bindC_def returnC_def h close_def)
  then show ?thesis
    using None h by simp
next
  case (Some s)
  obtain major minor where s: "s = (major, minor)"
    by (cases s) auto
  show ?thesis
    using handshake_match[OF assms Some[unfolded s]] by (simp add: Some s)
qed

lemma example_selection:
  "first_compatible (map slot_proposal
     (slots [0, 2, 2, 5, 0, 0, 4, 4, 0, 0, 0, 0, 0, 0, 0, 0])) = Some (5, 0)"
  by code_simp

theorem handshake_selects_first_compatible_witness:
  "conn_reader (new_connection (BOLT_MAGIC @ [0, 2, 2, 5, 0, 0, 4, 4, 0, 0, 0, 0, 0, 0, 0, 0] @ [1]))
     = BOLT_MAGIC @ [0, 2, 2, 5, 0, 0, 4, 4, 0, 0, 0, 0, 0, 0, 0, 0] @ [1]
   \<and> length [0, 2, 2, 5, 0, 0, 4, 4, 0, 0, 0, 0, 0, 0, 0, 0 :: byte] = 16
   \<and> sm_state (conn_state
         (new_connection (BOLT_MAGIC @ [0, 2, 2, 5, 0, 0, 4, 4, 0, 0, 0, 0, 0, 0, 0, 0] @ [1])))
       = NEGOTIATION
   \<and> map_option (\<lambda>(r, c). (r, conn_written c, conn_negotiated_version c, conn_reader c,
           sm_state (conn_state c)))
         (handshake
           (new_connection (BOLT_MAGIC @ [0, 2, 2, 5, 0, 0, 4, 4, 0, 0, 0, 0, 0, 0, 0, 0] @ [1])))
       = Some (Inr True, [0, 0, 0, 5], Some (5, 0), [1], AUTHENTICATION)"
proof -
  let ?block = "[0, 2, 2, 5, 0, 0, 4, 4, 0, 0, 0, 0, 0, 0, 0, 0 :: byte]"
  let ?c = "new_connection (BOLT_MAGIC @ ?block @ [1])"
  have h1: "conn_reader ?c = BOLT_MAGIC @ ?block @ [1]"
    by (simp add: new_connection_def BoltConnection_init_def)
  have h2: "length ?block = 16"
    by simp
  have h3: "sm_state (conn_state ?c) = NEGOTIATION"
    by (simp add: new_connection_def BoltConnection_init_def StateMachine_init_def)
  from handshake_selects_first_compatible[OF h1 h2 h3]
  have r: "handshake ?c
      = Some (Inr True,
          ?c\<lparr>conn_reader := [1], conn_negotiated_version := Some (5, 0),
               conn_written := conn_written ?c @ [0, 0, of_nat 0, of_nat 5],
               conn_state := (conn_state ?c)\<lparr>sm_state := AUTHENTICATION\<rparr>\<rparr>)"
    by (simp add: example_selection)
  show ?thesis
    unfolding r
    by (simp add: new_connection_def BoltConnection_init_def StateMachine_init_def)
qed

section \<open>Properties of the converter\<close>

subsection \<open>The ID tables\<close>






text \<open>One request.\<close>

lemma serve_unhashable:
  "\<not> hashable (request_key r) \<Longrightarrow> serve r c = (Inl TypeError_Unhashable, c)"
  by (cases r) (simp_all add: get_node_id_def get_edge_id_def)








lemma serve_next_id_mono: "next_id c r' \<le> next_id (snd (serve r c)) r'"
  by (cases r; cases r') (auto simp add: get_node_id_def get_edge_id_def split: option.split)

















subsection \<open>The indices of a path\<close>



















end
